theory Spec2Isabelle
  imports Main
begin

text \<open>
  The middleware of the AdonisJS demo application (\<open>app/Middleware/*.ts\<close>), the
  controller actions they guard (\<open>DemoController.ts\<close>) and the routes that chain them
  (\<open>start/routes.ts\<close>), as functions on an explicit HTTP context. A middleware
  \<open>handle(ctx, next)\<close> becomes a function of the context and of the downstream
  handler; what it writes to the console is left out.
\<close>

section \<open>Values shared by all middleware\<close>

text \<open>
  JSON values as the handlers build them. An object is kept as the list of its
  key/value pairs in the order the literal writes them.
\<close>

datatype json =
    JNull
  | JBool bool
  | JNum int
  | JStr string
  | JArr "json list"
  | JObj "(string \<times> json) list"

text \<open>The mock user object of \<open>Auth.getUserFromToken\<close>: \<open>{ id, name, role, email }\<close>.\<close>

record user_data =
  user_id :: int
  user_name :: string
  user_role :: string
  user_email :: string

text \<open>The \<open>feature\<close> object that \<open>FeatureFlag.handle\<close> puts into the context bag.\<close>

record feature_ctx =
  fc_name :: string
  fc_enabled :: bool
  fc_rolloutId :: int
  fc_rolloutPercentage :: int

text \<open>
  The \<open>device\<close> object that \<open>DeviceDetector.parseUserAgent\<close> returns:
  \<open>{ type, browser, os, isBot, isMobile, isTablet, userAgent, parsed_at }\<close>.
\<close>

record device_info =
  dev_type :: string
  dev_browser :: string
  dev_os :: string
  isBot :: bool
  isMobile :: bool
  isTablet :: bool
  dev_userAgent :: string
  parsed_at :: string

text \<open>
  \<open>request.ctx\<close>: the bag of optional fields that the middleware accumulate with
  \<open>request.ctx = { ...request.ctx, field: value }\<close>. A field that was never set is
  \<open>None\<close> (JavaScript's \<open>undefined\<close>).
\<close>

record ctx_bag =
  user :: "user_data option"
  isAdmin :: "bool option"
  adminPermissions :: "string list option"
  feature :: "feature_ctx option"
  device :: "device_info option"
  requestId :: "string option"
  startTime :: "int option"

text \<open>
  Every value thrown in this code base is an \<open>Error\<close> object (the controller's
  \<open>throw new Error(...)\<close>, the runtime's \<open>TypeError\<close> on a property of
  \<open>undefined\<close>); it carries its message. An object is truthy, so a handler's
  \<open>if (error)\<close> on a caught value holds exactly when something was thrown.
\<close>

datatype error = Error string

text \<open>
  The part of the framework's request that the middleware read: \<open>request.method()\<close>,
  \<open>request.url()\<close>, \<open>request.ip()\<close>, \<open>request.header(name)\<close> (a string when the
  header is there), \<open>request.input(name)\<close> (whatever the query string or the body
  holds under that name: a string, but also a number, an array such as \<open>?token[]=x\<close>
  gives, an object), \<open>request.body()\<close> (a call that the response transformer guards
  with \<open>try\<close>, so the model lets it throw: \<open>Inl\<close>), and the mutable \<open>request.ctx\<close>.
\<close>

record request =
  req_method :: string
  url :: string
  ip :: string
  header :: "string \<rightharpoonup> string"
  input :: "string \<rightharpoonup> json"
  body :: "error + json"
  ctx :: ctx_bag

text \<open>
  The part of the framework's response that the middleware write, named after its
  getters: \<open>response.getStatus()\<close>, \<open>response.getHeaders()\<close>, \<open>response.getBody()\<close>.
  No body yet is \<open>None\<close>.
\<close>

record response =
  getStatus :: nat
  getHeaders :: "string \<rightharpoonup> string"
  getBody :: "json option"

record http_ctx =
  request :: request
  response :: response

text \<open>
  Awaiting a handler either completes or throws; in both cases the mutations made to
  the context so far stay made.
\<close>

datatype outcome = Returned http_ctx | Threw error http_ctx

type_synonym handler = "http_ctx \<Rightarrow> outcome"

subsection \<open>The response API\<close>

definition resp_status :: "nat \<Rightarrow> response \<Rightarrow> response" where
  "resp_status n r = r\<lparr>getStatus := n\<rparr>"

definition resp_json :: "json \<Rightarrow> response \<Rightarrow> response" where
  "resp_json b r = r\<lparr>getBody := Some b\<rparr>"

definition resp_send :: "string \<Rightarrow> response \<Rightarrow> response" where
  "resp_send s r = r\<lparr>getBody := Some (JStr s)\<rparr>"

definition resp_header :: "string \<Rightarrow> string \<Rightarrow> response \<Rightarrow> response" where
  "resp_header k v r = r\<lparr>getHeaders := (getHeaders r)(k \<mapsto> v)\<rparr>"

text \<open>\<open>return response.status(n).json(b)\<close>: the handler ends without calling downstream.\<close>

definition respond :: "nat \<Rightarrow> json \<Rightarrow> http_ctx \<Rightarrow> outcome" where
  "respond n b c = Returned (c\<lparr>response := resp_json b (resp_status n (response c))\<rparr>)"

text \<open>\<open>request.ctx = { ...request.ctx, ... }\<close>.\<close>

definition set_ctx :: "(ctx_bag \<Rightarrow> ctx_bag) \<Rightarrow> http_ctx \<Rightarrow> http_ctx" where
  "set_ctx f c = c\<lparr>request := (request c)\<lparr>ctx := f (ctx (request c))\<rparr>\<rparr>"

definition with_header :: "string \<Rightarrow> string \<Rightarrow> http_ctx \<Rightarrow> http_ctx" where
  "with_header k v c = c\<lparr>response := resp_header k v (response c)\<rparr>"

subsection \<open>JavaScript strings and truthiness\<close>

text \<open>A string is falsy when it is missing or empty.\<close>

fun truthy :: "string option \<Rightarrow> bool" where
  "truthy None = False"
| "truthy (Some s) = (s \<noteq> [])"

text \<open>\<open>a || b\<close> on optional strings.\<close>

definition js_or :: "string option \<Rightarrow> string option \<Rightarrow> string option" where
  "js_or a b = (if truthy a then a else b)"

text \<open>
  Truthiness of a value that may not be a string: \<open>undefined\<close>, \<open>null\<close>, \<open>false\<close>,
  \<open>0\<close> and the empty string are falsy, arrays and objects are truthy.
\<close>

fun truthy_value :: "json option \<Rightarrow> bool" where
  "truthy_value None = False"
| "truthy_value (Some JNull) = False"
| "truthy_value (Some (JBool b)) = b"
| "truthy_value (Some (JNum n)) = (n \<noteq> 0)"
| "truthy_value (Some (JStr s)) = (s \<noteq> [])"
| "truthy_value (Some (JArr xs)) = True"
| "truthy_value (Some (JObj kvs)) = True"

text \<open>\<open>a || b\<close> where \<open>a\<close> is an optional string and \<open>b\<close> any optional value.\<close>

definition js_or_value :: "string option \<Rightarrow> json option \<Rightarrow> json option" where
  "js_or_value a b = (if truthy a then map_option JStr a else b)"

fun starts_with :: "string \<Rightarrow> string \<Rightarrow> bool" where
  "starts_with [] s = True"
| "starts_with (p # ps) [] = False"
| "starts_with (p # ps) (c # cs) = (p = c \<and> starts_with ps cs)"

text \<open>
  \<open>s.replace(pat, rep)\<close> with a string pattern and a replacement without \<open>$\<close>: the
  first occurrence of \<open>pat\<close> in \<open>s\<close>, wherever it is, is replaced; a string without
  the pattern is returned as it is.
\<close>

fun replace :: "string \<Rightarrow> string \<Rightarrow> string \<Rightarrow> string" where
  "replace pat rep [] = (if pat = [] then rep else [])"
| "replace pat rep (c # cs) =
     (if starts_with pat (c # cs) then rep @ drop (length pat) (c # cs)
      else c # replace pat rep cs)"

text \<open>\<open>n.toString()\<close> for an integer \<open>n\<close>: decimal digits, with a sign when negative.\<close>

fun digits :: "nat \<Rightarrow> string" where
  "digits n = (if n < 10 then [''0123456789'' ! n]
               else digits (n div 10) @ [''0123456789'' ! (n mod 10)])"

definition toString :: "int \<Rightarrow> string" where
  "toString i = (if i < 0 then CHR ''-'' # digits (nat (- i)) else digits (nat i))"

section \<open>Auth: the bearer-token authenticator\<close>

definition validTokens :: "string list" where
  "validTokens = [''user-token-123'', ''admin-token-456'', ''demo-token-789'']"

definition users :: "(string \<times> user_data) list" where
  "users =
    [(''user-token-123'',
        \<lparr>user_id = 1, user_name = ''John Doe'', user_role = ''user'',
         user_email = ''john@example.com''\<rparr>),
     (''admin-token-456'',
        \<lparr>user_id = 2, user_name = ''Jane Admin'', user_role = ''admin'',
         user_email = ''jane@example.com''\<rparr>),
     (''demo-token-789'',
        \<lparr>user_id = 3, user_name = ''Demo User'', user_role = ''demo'',
         user_email = ''demo@example.com''\<rparr>)]"

definition guest :: user_data where
  "guest = \<lparr>user_id = 0, user_name = ''Unknown'', user_role = ''guest'', user_email = ''''\<rparr>"

text \<open>
  \<open>users[token] || { id: 0, name: 'Unknown', role: 'guest', email: '' }\<close>, as a lookup
  among the three keys of the table. \<open>handle\<close> calls it behind
  \<open>validTokens.includes\<close> only, that is with one of these keys.
\<close>

definition getUserFromToken :: "string \<Rightarrow> user_data" where
  "getUserFromToken token = (case map_of users token of Some u \<Rightarrow> u | None \<Rightarrow> guest)"

text \<open>
  \<open>Auth.handle\<close>. The token is the header or, failing that, the request parameter, and
  the parameter need not be a string. \<open>token.replace\<close> exists on strings only: on any
  other truthy value (a number, \<open>true\<close>, an array, an object of the query string or of
  a JSON body) the call throws a \<open>TypeError\<close>, before the token is compared and before
  anything is written to the response.
\<close>

definition Auth_handle :: "http_ctx \<Rightarrow> handler \<Rightarrow> outcome" where
  "Auth_handle c next =
    (let token = js_or_value (header (request c) ''authorization'') (input (request c) ''token'')
     in if \<not> truthy_value token then
          respond 401
            (JObj [(''error'', JStr ''Authentication required''),
                   (''message'', JStr ''Please provide an authentication token''),
                   (''hint'', JStr ''Add Authorization header or token parameter'')]) c
        else
          (case the token of
             JStr s \<Rightarrow>
               let cleanToken = replace ''Bearer '' [] s
               in if cleanToken \<notin> set validTokens then
                    respond 401
                      (JObj [(''error'', JStr ''Invalid token''),
                             (''message'', JStr ''The provided token is not valid'')]) c
                  else
                    let userData = getUserFromToken cleanToken
                    in next (set_ctx (\<lambda>b. b\<lparr>user := Some userData\<rparr>) c)
           | _ \<Rightarrow> Threw (Error ''TypeError'') c))"

section \<open>The controller actions behind the guarded routes\<close>

text \<open>
  A request enters the chain with the framework's fresh response: status 200, no
  header set by this code yet, no body.
\<close>

definition new_response :: response where
  "new_response = \<lparr>getStatus = 200, getHeaders = Map.empty, getBody = None\<rparr>"

definition incoming :: "request \<Rightarrow> http_ctx" where
  "incoming r = \<lparr>request = r, response = new_response\<rparr>"

text \<open>What is left of the context after an outcome, and whether it was a throw.\<close>

fun final :: "outcome \<Rightarrow> http_ctx" where
  "final (Returned c) = c"
| "final (Threw e c) = c"

fun threw :: "outcome \<Rightarrow> bool" where
  "threw (Returned c) = False"
| "threw (Threw e c) = True"

text \<open>
  The message strings of the controller start with an emoji; it is written as its
  UTF-8 bytes.
\<close>

definition emoji :: "nat \<Rightarrow> nat \<Rightarrow> string" where
  "emoji a b = [char_of (0xF0::nat), char_of (0x9F::nat), char_of a, char_of b]"

text \<open>
  \<open>DemoController.protected\<close>. \<open>stamp\<close> is \<open>new Date().toISOString()\<close> as the clock
  gives it. Reading \<open>user.name\<close> of a missing user throws before the response is
  touched.
\<close>

definition DemoController_protected :: "string \<Rightarrow> handler" where
  "DemoController_protected stamp c =
    (case user (ctx (request c)) of
       None \<Rightarrow> Threw (Error ''TypeError'') c
     | Some u \<Rightarrow>
         Returned (c\<lparr>response := resp_json
           (JObj [(''message'', JStr (emoji 0x94 0x90 @ '' This is a protected endpoint'')),
                  (''description'', JStr ''Authentication required to access this''),
                  (''user'', JObj [(''name'', JStr (user_name u)),
                                   (''email'', JStr (user_email u)),
                                   (''role'', JStr (user_role u))]),
                  (''data'', JObj [(''method'', JStr (req_method (request c))),
                                   (''url'', JStr (url (request c))),
                                   (''authenticated_at'', JStr stamp)])])
           (response c)\<rparr>))"

text \<open>\<open>DemoController.admin\<close>; \<open>request.ctx?.adminPermissions || []\<close>.\<close>

definition DemoController_admin :: "string \<Rightarrow> handler" where
  "DemoController_admin stamp c =
    (case user (ctx (request c)) of
       None \<Rightarrow> Threw (Error ''TypeError'') c
     | Some u \<Rightarrow>
         let permissions = (case adminPermissions (ctx (request c)) of
                              None \<Rightarrow> [] | Some ps \<Rightarrow> ps)
         in Returned (c\<lparr>response := resp_json
           (JObj [(''message'', JStr (emoji 0x91 0x91 @ '' This is an admin-only endpoint'')),
                  (''description'', JStr ''Requires admin role to access''),
                  (''admin'', JObj [(''name'', JStr (user_name u)),
                                    (''role'', JStr (user_role u)),
                                    (''permissions'', JArr (map JStr permissions))]),
                  (''system_info'', JObj [(''server_time'', JStr stamp),
                                          (''total_users'', JNum 42),
                                          (''active_sessions'', JNum 15)])])
           (response c)\<rparr>))"

text \<open>\<open>DemoController.rateLimited\<close>.\<close>

definition DemoController_rateLimited :: handler where
  "DemoController_rateLimited c =
     Returned (c\<lparr>response := resp_json
       (JObj [(''message'', JStr (emoji 0x9A 0xA6 @ '' This endpoint has strict rate limiting'')),
              (''description'', JStr ''Only 10 requests per minute allowed''),
              (''request_info'', JObj [(''ip'', JStr (ip (request c))),
                                       (''method'', JStr (req_method (request c))),
                                       (''url'', JStr (url (request c)))]),
              (''hint'', JStr
                 ''Try making multiple requests quickly to see rate limiting in action'')])
       (response c)\<rparr>)"

text \<open>
  \<open>DemoController.betaFeature\<close>; a field read through \<open>feature?.x\<close> of a missing
  feature is \<open>undefined\<close>, which \<open>JSON\<close> leaves out of the object.
\<close>

definition DemoController_betaFeature :: handler where
  "DemoController_betaFeature c =
     Returned (c\<lparr>response := resp_json
       (JObj [(''message'', JStr (emoji 0x9A 0xA9 @ '' This is a beta feature'')),
              (''description'', JStr ''Protected by feature flags with 50% rollout''),
              (''feature_info'',
                 (case feature (ctx (request c)) of
                    None \<Rightarrow> JObj []
                  | Some f \<Rightarrow> JObj [(''name'', JStr (fc_name f)),
                                    (''enabled'', JBool (fc_enabled f)),
                                    (''rolloutPercentage'', JNum (fc_rolloutPercentage f))])),
              (''beta_data'', JObj [(''new_algorithm'', JStr ''active''),
                                    (''performance_boost'', JStr ''25%''),
                                    (''additional_features'',
                                       JArr [JStr ''real-time-sync'',
                                             JStr ''advanced-analytics''])])])
       (response c)\<rparr>)"

text \<open>A GET request as a client sends it: nothing in the context bag yet.\<close>

definition empty_bag :: ctx_bag where
  "empty_bag = \<lparr>user = None, isAdmin = None, adminPermissions = None, feature = None,
                 device = None, requestId = None, startTime = None\<rparr>"

definition get_request :: "string \<Rightarrow> string \<Rightarrow> (string \<times> string) list \<Rightarrow> request" where
  "get_request path addr hs =
     \<lparr>req_method = ''GET'', url = path, ip = addr, header = map_of hs, input = Map.empty,
      body = Inr (JObj []), ctx = empty_bag\<rparr>"


section \<open>Admin: the role authorizer\<close>

definition Admin_handle :: "http_ctx \<Rightarrow> handler \<Rightarrow> outcome" where
  "Admin_handle c next =
    (case user (ctx (request c)) of
       None \<Rightarrow>
         respond 401
           (JObj [(''error'', JStr ''Authentication required''),
                  (''message'', JStr ''User must be authenticated before checking admin access''),
                  (''hint'', JStr ''Make sure Auth middleware runs before Admin middleware'')]) c
     | Some u \<Rightarrow>
         if user_role u \<noteq> ''admin'' then
           respond 403
             (JObj [(''error'', JStr ''Insufficient privileges''),
                    (''message'', JStr ''Admin access required''),
                    (''user'', JObj [(''name'', JStr (user_name u)),
                                     (''role'', JStr (user_role u)),
                                     (''requiredRole'', JStr ''admin'')])]) c
         else
           next (set_ctx (\<lambda>b. b\<lparr>isAdmin := Some True,
                                  adminPermissions := Some [''read_all_users'', ''delete_users'',
                                    ''modify_system_settings'', ''view_analytics'']\<rparr>) c))"

section \<open>RateLimit: the fixed-window rate limiter\<close>

text \<open>
  \<open>limitType: keyof typeof this.limits\<close>: one of the three tiers. \<open>limit_name\<close> is the
  tier as the template string \<open>`${clientIP}:${limitType}`\<close> prints it.
\<close>

datatype limit_type = Default | Strict | Generous

fun limit_name :: "limit_type \<Rightarrow> string" where
  "limit_name Default = ''default''"
| "limit_name Strict = ''strict''"
| "limit_name Generous = ''generous''"

record limit_cfg =
  requests :: int
  windowMs :: int

fun limits :: "limit_type \<Rightarrow> limit_cfg" where
  "limits Default = \<lparr>requests = 100, windowMs = 15 * 60 * 1000\<rparr>"
| "limits Strict = \<lparr>requests = 10, windowMs = 60 * 1000\<rparr>"
| "limits Generous = \<lparr>requests = 1000, windowMs = 60 * 60 * 1000\<rparr>"

text \<open>An entry of the static \<open>RateLimit.requests\<close> map, and the map itself.\<close>

record request_data =
  count :: int
  resetTime :: int

type_synonym rate_table = "string \<rightharpoonup> request_data"

definition rate_key :: "string \<Rightarrow> limit_type \<Rightarrow> string" where
  "rate_key clientIP limitType = clientIP @ '':'' @ limit_name limitType"

text \<open>\<open>Math.ceil(d / 1000)\<close> for an integer \<open>d\<close>.\<close>

definition ceil_div1000 :: "int \<Rightarrow> int" where
  "ceil_div1000 d = - ((- d) div 1000)"

text \<open>
  \<open>RateLimit.handle\<close>. The static table is threaded through; \<open>now\<close> is \<open>Date.now()\<close>.
  The table is private to the class, so the downstream handler of a route that names
  the limiter once (every route of \<open>start/routes.ts\<close>) leaves it as it is.
\<close>

definition RateLimit_handle ::
  "rate_table \<Rightarrow> int \<Rightarrow> http_ctx \<Rightarrow> handler \<Rightarrow> limit_type \<Rightarrow> rate_table \<times> outcome" where
  "RateLimit_handle tbl now c next limitType =
    (let clientIP = ip (request c);
         key = rate_key clientIP limitType;
         limit = limits limitType;
         requestData =
           (case tbl key of
              None \<Rightarrow> \<lparr>count = 0, resetTime = now + windowMs limit\<rparr>
            | Some d \<Rightarrow> if now > resetTime d
                        then \<lparr>count = 0, resetTime = now + windowMs limit\<rparr>
                        else d);
         requestData = requestData\<lparr>count := count requestData + 1\<rparr>;
         tbl' = tbl(key \<mapsto> requestData)
     in if count requestData > requests limit then
          let resetIn = ceil_div1000 (resetTime requestData - now);
              c1 = with_header ''Retry-After'' (toString resetIn)
                     (with_header ''X-RateLimit-Reset'' (toString (resetTime requestData))
                       (with_header ''X-RateLimit-Remaining'' ''0''
                         (with_header ''X-RateLimit-Limit'' (toString (requests limit)) c)))
          in (tbl', respond 429
                (JObj [(''error'', JStr ''Rate limit exceeded''),
                       (''message'', JStr (''Too many requests from '' @ clientIP)),
                       (''limit'', JObj [(''requests'', JNum (requests limit)),
                                         (''windowMs'', JNum (windowMs limit)),
                                         (''type'', JStr (limit_name limitType))]),
                       (''current'', JObj [(''count'', JNum (count requestData)),
                                           (''resetIn'', JStr (toString resetIn @ '' seconds''))])])
                c1)
        else
          let remaining = requests limit - count requestData;
              c1 = with_header ''X-RateLimit-Reset'' (toString (resetTime requestData))
                     (with_header ''X-RateLimit-Remaining'' (toString remaining)
                       (with_header ''X-RateLimit-Limit'' (toString (requests limit)) c))
          in (tbl', next c1))"

text \<open>
  Requests served one after the other by the limiter of one route: each comes with the
  clock reading at its arrival and finds the table as the previous one left it.
\<close>

fun serve :: "rate_table \<Rightarrow> (int \<times> http_ctx) list \<Rightarrow> handler \<Rightarrow> limit_type \<Rightarrow> outcome list" where
  "serve tbl [] next limitType = []"
| "serve tbl ((now, c) # rs) next limitType =
     (case RateLimit_handle tbl now c next limitType of
        (tbl', out) \<Rightarrow> out # serve tbl' rs next limitType)"

section \<open>FeatureFlag: the feature-flag gate\<close>

text \<open>A flag: \<open>{ enabled, rollout, requiresAuth? }\<close>.\<close>

record feature_cfg =
  enabled :: bool
  rollout :: int
  requiresAuth :: "bool option"

text \<open>
  \<open>obj[name]\<close> on an object written as a literal. The name is looked up among the own
  keys first and then on \<open>Object.prototype\<close>, whose properties every such object
  inherits: eleven functions and the accessor \<open>__proto__\<close>, which gives the prototype
  itself. An inherited value is truthy and has none of the fields of the table's
  values. A name found in neither place gives \<open>undefined\<close>.
\<close>

definition object_prototype_names :: "string list" where
  "object_prototype_names =
     [''constructor'', ''__defineGetter__'', ''__defineSetter__'', ''hasOwnProperty'',
      ''__lookupGetter__'', ''__lookupSetter__'', ''isPrototypeOf'', ''propertyIsEnumerable'',
      ''toString'', ''valueOf'', ''__proto__'', ''toLocaleString'']"

datatype 'a property = Own 'a | Inherited | Undefined

definition get_property :: "(string \<times> 'a) list \<Rightarrow> string \<Rightarrow> 'a property" where
  "get_property obj name =
     (case map_of obj name of
        Some v \<Rightarrow> Own v
      | None \<Rightarrow> if name \<in> set object_prototype_names then Inherited else Undefined)"

text \<open>
  The \<open>features\<close> object literal of the class. \<open>featureName\<close> is declared
  \<open>keyof typeof this.features\<close>; the route declarations pass it as a string and the
  handler guards against a name without an entry, so the name is any string.
\<close>

definition features :: "(string \<times> feature_cfg) list" where
  "features =
    [(''new-api'', \<lparr>enabled = True, rollout = 100, requiresAuth = None\<rparr>),
     (''beta-features'', \<lparr>enabled = True, rollout = 50, requiresAuth = None\<rparr>),
     (''experimental'', \<lparr>enabled = False, rollout = 0, requiresAuth = None\<rparr>),
     (''premium-features'', \<lparr>enabled = True, rollout = 100, requiresAuth = Some True\<rparr>)]"

text \<open>
  JavaScript's \<open>ToInt32\<close>, which \<open><<\<close> applies to its operand and result and
  \<open>&\<close> to its result: the integer is wrapped into \<open>-2^31 .. 2^31 - 1\<close>.
\<close>

definition ToInt32 :: "int \<Rightarrow> int" where
  "ToInt32 x = (x + 2 ^ 31) mod 2 ^ 32 - 2 ^ 31"

text \<open>
  The loop of \<open>getUserRolloutId\<close> over the characters of the seed:
  \<open>hash = ((hash << 5) - hash) + char; hash = hash & hash\<close>. The subtraction and the
  addition are exact (numbers far below \<open>2^53\<close>).
\<close>

fun hash_loop :: "int \<Rightarrow> string \<Rightarrow> int" where
  "hash_loop hash [] = hash"
| "hash_loop hash (c # cs) =
     (let char = of_char c;
          hash = (ToInt32 (ToInt32 hash * 2 ^ 5) - hash) + char;
          hash = ToInt32 hash
      in hash_loop hash cs)"

definition getUserRolloutId :: "request \<Rightarrow> int" where
  "getUserRolloutId r =
    (let userAgent = (case js_or (header r ''user-agent'') (Some []) of
                        None \<Rightarrow> [] | Some s \<Rightarrow> s);
         seed = ip r @ userAgent
     in \<bar>hash_loop 0 seed\<bar>)"

definition quoted :: "string \<Rightarrow> string" where
  "quoted s = [CHR 0x27] @ s @ [CHR 0x27]"

text \<open>
  \<open>FeatureFlag.handle\<close>, reading the table through \<open>this.features\<close>: the first argument
  is that field. For an inherited property \<open>feature\<close> is truthy and \<open>feature.enabled\<close>
  is \<open>undefined\<close>, so the second guard answers.
\<close>

definition FeatureFlag_handle_of ::
  "(string \<times> feature_cfg) list \<Rightarrow> http_ctx \<Rightarrow> handler \<Rightarrow> string \<Rightarrow> outcome" where
  "FeatureFlag_handle_of this_features c next featureName =
    (let disabled =
           respond 403
             (JObj [(''error'', JStr ''Feature disabled''),
                    (''message'', JStr (''Feature '' @ quoted featureName @ '' is currently disabled'')),
                    (''feature'', JObj [(''name'', JStr featureName),
                                        (''enabled'', JBool False)])]) c
     in case get_property this_features featureName of
       Undefined \<Rightarrow>
         respond 404
           (JObj [(''error'', JStr ''Feature not found''),
                  (''message'', JStr (''Feature '' @ quoted featureName @ '' is not configured'')),
                  (''availableFeatures'', JArr (map (JStr \<circ> fst) this_features))]) c
     | Inherited \<Rightarrow> disabled
     | Own feat \<Rightarrow>
         if \<not> enabled feat then disabled
         else
           let userRolloutId = getUserRolloutId (request c);
               userRolloutPercentage = userRolloutId mod 100
           in if userRolloutPercentage \<ge> rollout feat then
                respond 403
                  (JObj [(''error'', JStr ''Feature not available''),
                         (''message'', JStr (''Feature '' @ quoted featureName
                                              @ '' is not available for your account'')),
                         (''feature'', JObj [(''name'', JStr featureName),
                                             (''enabled'', JBool True),
                                             (''inRollout'', JBool False),
                                             (''rolloutPercentage'', JNum (rollout feat))])]) c
              else if requiresAuth feat = Some True \<and> user (ctx (request c)) = None then
                respond 401
                  (JObj [(''error'', JStr ''Authentication required''),
                         (''message'', JStr (''Feature '' @ quoted featureName
                                              @ '' requires user authentication'')),
                         (''feature'', JObj [(''name'', JStr featureName),
                                             (''requiresAuth'', JBool True)])]) c
              else
                (case next (set_ctx (\<lambda>b. b\<lparr>feature := Some
                              \<lparr>fc_name = featureName, fc_enabled = True,
                               fc_rolloutId = userRolloutId,
                               fc_rolloutPercentage = rollout feat\<rparr>\<rparr>) c) of
                   Threw e c' \<Rightarrow> Threw e c'
                 | Returned c' \<Rightarrow>
                     Returned (with_header ''X-Feature-Rollout'' (toString (rollout feat))
                                (with_header ''X-Feature-Enabled'' ''true''
                                  (with_header ''X-Feature-Flag'' featureName c')))))"

text \<open>The handler of the class as it is instantiated: \<open>this.features\<close> is the literal.\<close>

definition FeatureFlag_handle :: "http_ctx \<Rightarrow> handler \<Rightarrow> string \<Rightarrow> outcome" where
  "FeatureFlag_handle = FeatureFlag_handle_of features"

section \<open>ResponseTransformer: request id, timing and the metadata envelope\<close>

text \<open>\<open>n.toString(36)\<close> for an integer \<open>n\<close>.\<close>

fun digits36 :: "nat \<Rightarrow> string" where
  "digits36 n =
     (if n < 36 then [''0123456789abcdefghijklmnopqrstuvwxyz'' ! n]
      else digits36 (n div 36) @ [''0123456789abcdefghijklmnopqrstuvwxyz'' ! (n mod 36)])"

definition toString36 :: "int \<Rightarrow> string" where
  "toString36 i = (if i < 0 then CHR ''-'' # digits36 (nat (- i)) else digits36 (nat i))"

text \<open>\<open>s.includes(pat)\<close>.\<close>

fun includes_str :: "string \<Rightarrow> string \<Rightarrow> bool" where
  "includes_str [] pat = (pat = [])"
| "includes_str (c # cs) pat = (starts_with pat (c # cs) \<or> includes_str cs pat)"

text \<open>
  What the handler reads from outside the request: \<open>Date.now()\<close> and
  \<open>Math.random().toString(36)\<close> inside \<open>generateRequestId\<close>, the two readings of
  \<open>process.hrtime.bigint()\<close> (before and after downstream), the rendering
  \<open>(Number(d) / 1000000).toFixed(2)\<close> of a nanosecond difference \<open>d\<close> (floating
  point, left to the runtime), and \<open>new Date().toISOString()\<close>.
\<close>

record transformer_env =
  dateNow :: int
  random36 :: string
  hrStart :: int
  hrEnd :: int
  toFixed2 :: "int \<Rightarrow> string"
  isoStamp :: string

text \<open>\<open>randomStr = Math.random().toString(36).substring(2, 15)\<close>.\<close>

definition generateRequestId :: "transformer_env \<Rightarrow> string" where
  "generateRequestId env =
    (let timestamp = toString36 (dateNow env);
         randomStr = take 13 (drop 2 (random36 env))
     in ''req_'' @ timestamp @ ''_'' @ randomStr)"

text \<open>
  \<open>{ ...originalBody, meta: m }\<close>: a key that the body has keeps its place and gets
  the new value, otherwise the pair is added at the end.
\<close>

fun obj_set :: "string \<Rightarrow> json \<Rightarrow> (string \<times> json) list \<Rightarrow> (string \<times> json) list" where
  "obj_set k v [] = [(k, v)]"
| "obj_set k v ((k', v') # kvs) =
     (if k = k' then (k, v) # kvs else (k', v') # obj_set k v kvs)"

text \<open>The own enumerable properties that spreading an array gives: its indices.\<close>

definition array_entries :: "json list \<Rightarrow> (string \<times> json) list" where
  "array_entries xs = zip (map (\<lambda>i. toString (int i)) [0 ..< length xs]) xs"

definition ResponseTransformer_handle :: "transformer_env \<Rightarrow> http_ctx \<Rightarrow> handler \<Rightarrow> outcome" where
  "ResponseTransformer_handle env c next =
    (let requestId = generateRequestId env;
         startTime = hrStart env;
         c = set_ctx (\<lambda>b. b\<lparr>requestId := Some requestId, startTime := Some startTime\<rparr>) c;
         c = with_header ''X-Request-ID'' requestId c
     in if (case header (request c) ''content-type'' of
              None \<Rightarrow> False
            | Some t \<Rightarrow> includes_str t ''application/json'')
           \<and> isl (body (request c))
        then
          respond 400
            (JObj [(''error'', JStr ''Invalid JSON''),
                   (''message'', JStr ''Request body contains malformed JSON''),
                   (''requestId'', JStr requestId)]) c
        else
          let out = next c;
              c = final out;
              endTime = hrEnd env;
              processingTime = toFixed2 env (endTime - startTime) @ ''ms'';
              c = with_header ''X-Server'' ''AdonisJS-Middleware-Demo''
                    (with_header ''X-Processing-Time'' processingTime c)
          in if threw out then
               respond 500
                 (JObj [(''error'', JStr ''Internal Server Error''),
                        (''message'', JStr ''An error occurred while processing your request''),
                        (''meta'', JObj [(''requestId'', JStr requestId),
                                         (''processingTime'', JStr processingTime),
                                         (''timestamp'', JStr (isoStamp env))])]) c
             else
               let meta = JObj [(''requestId'', JStr requestId),
                                (''processingTime'', JStr processingTime),
                                (''timestamp'', JStr (isoStamp env)),
                                (''version'', JStr ''1.0.0'')]
               in (case getBody (response c) of
                     Some (JObj kvs) \<Rightarrow>
                       Returned (c\<lparr>response := resp_json (JObj (obj_set ''meta'' meta kvs))
                                                 (response c)\<rparr>)
                   | Some (JArr xs) \<Rightarrow>
                       Returned (c\<lparr>response := resp_json
                                     (JObj (obj_set ''meta'' meta (array_entries xs)))
                                     (response c)\<rparr>)
                   | _ \<Rightarrow> Returned c))"

text \<open>\<open>DemoController.error\<close>: throws without touching the response.\<close>

definition DemoController_error :: handler where
  "DemoController_error c = Threw (Error ''Intentional error for middleware testing'') c"

text \<open>\<open>DemoController.public\<close>.\<close>

definition DemoController_public :: "string \<Rightarrow> handler" where
  "DemoController_public stamp c =
     Returned (c\<lparr>response := resp_json
       (JObj [(''message'', JStr (emoji 0x8C 0x8D @ '' This is a public endpoint'')),
              (''description'', JStr ''Only global middleware runs here''),
              (''data'', JObj [(''method'', JStr (req_method (request c))),
                               (''url'', JStr (url (request c))),
                               (''timestamp'', JStr stamp)])])
       (response c)\<rparr>)"

section \<open>Cors: the CORS handler\<close>

definition allowedOrigins :: "string list" where
  "allowedOrigins = [''http://localhost:3000'', ''http://localhost:3001'', ''https://yourdomain.com'']"

definition allowedMethods :: "string list" where
  "allowedMethods = [''GET'', ''POST'', ''PUT'', ''DELETE'', ''PATCH'', ''OPTIONS'']"

definition allowedHeaders :: "string list" where
  "allowedHeaders = [''Content-Type'', ''Authorization'', ''X-Requested-With'', ''Accept'', ''Origin'']"

text \<open>\<open>xs.join(sep)\<close>.\<close>

fun join :: "string \<Rightarrow> string list \<Rightarrow> string" where
  "join sep [] = []"
| "join sep [x] = x"
| "join sep (x # y # ys) = x @ sep @ join sep (y # ys)"

definition setCorsHeaders :: "http_ctx \<Rightarrow> http_ctx" where
  "setCorsHeaders c =
    (let origin = header (request c) ''origin'';
         c = (if truthy origin \<and> the origin \<in> set allowedOrigins then
                with_header ''Access-Control-Allow-Origin'' (the origin) c
              else if \<not> truthy origin then
                with_header ''Access-Control-Allow-Origin'' ''*'' c
              else c)
     in with_header ''Access-Control-Allow-Credentials'' ''true''
          (with_header ''Access-Control-Allow-Headers'' (join '', '' allowedHeaders)
            (with_header ''Access-Control-Allow-Methods'' (join '', '' allowedMethods) c)))"

definition Cors_handle :: "http_ctx \<Rightarrow> handler \<Rightarrow> outcome" where
  "Cors_handle c next =
    (if req_method (request c) = ''OPTIONS'' then
       let c = setCorsHeaders c;
           c = with_header ''Access-Control-Max-Age'' ''86400'' c
       in Returned (c\<lparr>response := resp_send [] (resp_status 204 (response c))\<rparr>)
     else
       (case next c of
          Threw e c' \<Rightarrow> Threw e c'
        | Returned c' \<Rightarrow> Returned (setCorsHeaders c')))"


section \<open>DeviceDetector: classification of the user agent\<close>

text \<open>
  \<open>s.toLowerCase()\<close> on the characters a header value has (one byte each, Latin-1):
  \<open>A\<close>-\<open>Z\<close> and the accented capitals \<open>0xC0\<close>-\<open>0xDE\<close>, the multiplication sign
  \<open>0xD7\<close> apart, move up by 32.
\<close>

definition toLowerCase_char :: "char \<Rightarrow> char" where
  "toLowerCase_char c =
     (let n = (of_char c :: nat)
      in if (65 \<le> n \<and> n \<le> 90) \<or> (192 \<le> n \<and> n \<le> 222 \<and> n \<noteq> 215)
         then char_of (n + 32) else c)"

definition toLowerCase :: "string \<Rightarrow> string" where
  "toLowerCase s = map toLowerCase_char s"

text \<open>
  A regular expression \<open>/a|b|.../.test(s)\<close> whose alternatives are plain strings: one
  of them occurs in \<open>s\<close>. On a lower-cased \<open>s\<close> the flag \<open>i\<close> changes nothing.
\<close>

definition test_any :: "string list \<Rightarrow> string \<Rightarrow> bool" where
  "test_any alts s = list_ex (includes_str s) alts"

text \<open>Some position of \<open>s\<close> at which \<open>P\<close> holds of the rest of the string.\<close>

fun at_some_position :: "(string \<Rightarrow> bool) \<Rightarrow> string \<Rightarrow> bool" where
  "at_some_position P [] = P []"
| "at_some_position P (c # cs) = (P (c # cs) \<or> at_some_position P cs)"

text \<open>The dot of a regular expression matches every character but a line terminator.\<close>

definition dot :: "char \<Rightarrow> bool" where
  "dot c = (c \<noteq> char_of (10::nat) \<and> c \<noteq> char_of (13::nat))"

text \<open>
  \<open>/android(?!.*mobile)/\<close>: \<open>android\<close> occurs and, from its end to the end of the line,
  no \<open>mobile\<close> follows.
\<close>

definition android_without_mobile :: "string \<Rightarrow> bool" where
  "android_without_mobile s =
     at_some_position
       (\<lambda>t. starts_with ''android'' t
            \<and> \<not> includes_str (takeWhile dot (drop (length ''android'') t)) ''mobile'') s"

text \<open>\<open>/netcast.tv/\<close>: \<open>netcast\<close>, one character, \<open>tv\<close>.\<close>

definition netcast_tv :: "string \<Rightarrow> bool" where
  "netcast_tv s =
     at_some_position
       (\<lambda>t. starts_with ''netcast'' t
            \<and> (case drop (length ''netcast'') t of
                  [] \<Rightarrow> False
                | x # r \<Rightarrow> dot x \<and> starts_with ''tv'' r)) s"

text \<open>
  \<open>parseUserAgent\<close>; \<open>stamp\<close> is \<open>new Date().toISOString()\<close>. The bot test runs on the
  string as sent with the flag \<open>i\<close>; its alternatives are lower-case ASCII letters, which
  a character matches without regard to case exactly when its lower-case form is equal.
\<close>

definition parseUserAgent :: "string \<Rightarrow> string \<Rightarrow> device_info" where
  "parseUserAgent stamp userAgent =
    (let ua = toLowerCase userAgent;
         type =
           (if test_any [''mobile'', ''android'', ''iphone'', ''ipod'', ''blackberry'',
                         ''iemobile'', ''opera mini''] ua then ''mobile''
            else if test_any [''tablet'', ''ipad''] ua \<or> android_without_mobile ua then ''tablet''
            else if test_any [''smart-tv'', ''smarttv'', ''googletv'', ''appletv'', ''hbbtv'',
                              ''pov_tv''] ua \<or> netcast_tv ua then ''tv''
            else ''desktop'');
         browser =
           (if includes_str ua ''chrome'' \<and> \<not> includes_str ua ''edge'' then ''chrome''
            else if includes_str ua ''firefox'' then ''firefox''
            else if includes_str ua ''safari'' \<and> \<not> includes_str ua ''chrome'' then ''safari''
            else if includes_str ua ''edge'' then ''edge''
            else if includes_str ua ''opera'' then ''opera''
            else if includes_str ua ''msie'' \<or> includes_str ua ''trident''
              then ''internet_explorer''
            else ''unknown'');
         os =
           (if includes_str ua ''windows'' then ''windows''
            else if includes_str ua ''mac os'' then ''macos''
            else if includes_str ua ''linux'' then ''linux''
            else if includes_str ua ''android'' then ''android''
            else if includes_str ua ''ios'' \<or> includes_str ua ''iphone''
                    \<or> includes_str ua ''ipad'' then ''ios''
            else ''unknown'');
         bot = test_any [''bot'', ''crawler'', ''spider'', ''scraper''] (toLowerCase userAgent)
     in \<lparr>dev_type = type, dev_browser = browser, dev_os = os, isBot = bot,
         isMobile = (type = ''mobile''), isTablet = (type = ''tablet''),
         dev_userAgent = take 100 userAgent, parsed_at = stamp\<rparr>)"

text \<open>The device object as JSON.\<close>

definition device_json :: "device_info \<Rightarrow> json" where
  "device_json d =
     JObj [(''type'', JStr (dev_type d)), (''browser'', JStr (dev_browser d)),
           (''os'', JStr (dev_os d)), (''isBot'', JBool (isBot d)),
           (''isMobile'', JBool (isMobile d)), (''isTablet'', JBool (isTablet d)),
           (''userAgent'', JStr (dev_userAgent d)), (''parsed_at'', JStr (parsed_at d))]"

text \<open>
  \<open>DeviceDetector.handle\<close>: the device goes into the context and into three headers,
  downstream runs, and for a mobile device a body that is an object (or an array) gets
  \<open>mobile_optimized\<close> and \<open>device_info\<close>.
\<close>

definition DeviceDetector_handle :: "string \<Rightarrow> http_ctx \<Rightarrow> handler \<Rightarrow> outcome" where
  "DeviceDetector_handle stamp c next =
    (let userAgent = (case js_or (header (request c) ''user-agent'') (Some []) of
                        None \<Rightarrow> [] | Some s \<Rightarrow> s);
         deviceInfo = parseUserAgent stamp userAgent;
         c = set_ctx (\<lambda>b. b\<lparr>device := Some deviceInfo\<rparr>) c;
         c = with_header ''X-OS'' (dev_os deviceInfo)
               (with_header ''X-Browser'' (dev_browser deviceInfo)
                 (with_header ''X-Device-Type'' (dev_type deviceInfo) c))
     in case next c of
          Threw e c' \<Rightarrow> Threw e c'
        | Returned c' \<Rightarrow>
            (let optimized = (\<lambda>kvs. c'\<lparr>response := resp_json
                                (JObj (obj_set ''device_info'' (device_json deviceInfo)
                                        (obj_set ''mobile_optimized'' (JBool True) kvs)))
                                (response c')\<rparr>)
             in if dev_type deviceInfo = ''mobile'' then
                  (case getBody (response c') of
                     Some (JObj kvs) \<Rightarrow> Returned (optimized kvs)
                   | Some (JArr xs) \<Rightarrow> Returned (optimized (array_entries xs))
                   | _ \<Rightarrow> Returned c')
                else Returned c'))"

text \<open>
  \<open>DemoController.multipleMiddleware\<close>; \<open>x || y\<close> takes \<open>y\<close> for a missing or empty
  string and for \<open>false\<close>.
\<close>

definition DemoController_multipleMiddleware :: handler where
  "DemoController_multipleMiddleware c =
    (let user = user (ctx (request c));
         device = device (ctx (request c));
         feature = feature (ctx (request c))
     in Returned (c\<lparr>response := resp_json
       (JObj [(''message'', JStr (emoji 0x8E 0xAF @ '' This endpoint uses multiple middleware'')),
              (''description'', JStr ''Demonstrates middleware chaining and interaction''),
              (''middleware_data'',
                 JObj [(''user'', (case user of
                                     None \<Rightarrow> JNull
                                   | Some u \<Rightarrow> JObj [(''name'', JStr (user_name u)),
                                                     (''role'', JStr (user_role u))])),
                       (''device'', (case device of
                                       None \<Rightarrow> JNull
                                     | Some d \<Rightarrow> JObj [(''type'', JStr (dev_type d)),
                                                       (''browser'', JStr (dev_browser d))])),
                       (''feature'', (case feature of
                                        None \<Rightarrow> JNull
                                      | Some f \<Rightarrow> JObj [(''name'', JStr (fc_name f)),
                                                        (''enabled'', JBool (fc_enabled f))]))]),
              (''combined_result'',
                 JObj [(''access_level'',
                          JStr (case user of
                                  None \<Rightarrow> ''guest''
                                | Some u \<Rightarrow> if user_role u = [] then ''guest'' else user_role u)),
                       (''device_optimization'',
                          JStr (case device of
                                  None \<Rightarrow> ''unknown''
                                | Some d \<Rightarrow> if dev_type d = [] then ''unknown'' else dev_type d)),
                       (''feature_access'',
                          JBool (case feature of None \<Rightarrow> False | Some f \<Rightarrow> fc_enabled f))])])
       (response c)\<rparr>))"

section \<open>The bearer scheme as the documentation words it\<close>

text \<open>
  The guide tells clients to send the token in the \<open>Authorization\<close> header
  "with \<open>Bearer \<close> prefix", and the specification speaks of stripping that prefix. This is
  that reading, to be compared with \<open>replace ''Bearer '' []\<close> of the handler: only a
  leading \<open>Bearer \<close> is removed.
\<close>

definition strip_Bearer_prefix :: "string \<Rightarrow> string" where
  "strip_Bearer_prefix token =
     (if starts_with ''Bearer '' token then drop (length ''Bearer '') token else token)"

section \<open>The routes\<close>

text \<open>
  The named middleware and the action of the routes of \<open>start/routes.ts\<close> that the
  properties below are about:
  \<open>Route.get('/demo/protected', 'DemoController.protected').middleware('auth')\<close>,
  \<open>Route.get('/demo/admin', 'DemoController.admin').middleware(['auth', 'admin'])\<close>,
  \<open>Route.get('/demo/rate-limited', 'DemoController.rateLimited').middleware('rateLimit:strict')\<close>,
  \<open>Route.get('/demo/experimental', 'DemoController.betaFeature').middleware('feature:experimental')\<close>,
  \<open>Route.get('/demo/multiple', 'DemoController.multipleMiddleware').middleware(['auth', 'device', 'feature:new-api'])\<close>,
  the one route behind the flag that the table marks as 100% rollout.
\<close>

definition route_demo_protected :: "string \<Rightarrow> handler" where
  "route_demo_protected stamp c = Auth_handle c (DemoController_protected stamp)"

definition route_demo_admin :: "string \<Rightarrow> handler" where
  "route_demo_admin stamp c =
     Auth_handle c (\<lambda>c. Admin_handle c (DemoController_admin stamp))"

definition route_demo_rate_limited ::
  "rate_table \<Rightarrow> (int \<times> http_ctx) list \<Rightarrow> outcome list" where
  "route_demo_rate_limited tbl rs = serve tbl rs DemoController_rateLimited Strict"

definition route_demo_experimental :: handler where
  "route_demo_experimental c = FeatureFlag_handle c DemoController_betaFeature ''experimental''"

definition route_demo_multiple :: "string \<Rightarrow> handler" where
  "route_demo_multiple stamp c =
     Auth_handle c
       (\<lambda>c. DeviceDetector_handle stamp c
          (\<lambda>c. FeatureFlag_handle c DemoController_multipleMiddleware ''new-api''))"


section \<open>Sample requests\<close>

text \<open>
  A request without credentials, and the same request once a user has been put into
  its context.
\<close>

definition anonymous :: http_ctx where
  "anonymous = incoming (get_request ''/demo/admin'' ''127.0.0.1'' [])"

definition as_user :: "user_data \<Rightarrow> http_ctx" where
  "as_user u = set_ctx (\<lambda>b. b\<lparr>user := Some u\<rparr>) anonymous"


text \<open>
  A client of \<open>/demo/rate-limited\<close> at a given address, and eleven arrivals of one
  client, one second apart.
\<close>

definition visitor :: "string \<Rightarrow> http_ctx" where
  "visitor addr = incoming (get_request ''/demo/rate-limited'' addr [])"

definition eleven_arrivals :: "(int \<times> http_ctx) list" where
  "eleven_arrivals =
     map (\<lambda>now. (now, visitor ''203.0.113.7''))
       [1000, 2000, 3000, 4000, 5000, 6000, 7000, 8000, 9000, 10000, 11000]"

text \<open>
  A client of \<open>/demo/beta\<close> with given address and headers, and a request that shares
  only the address and the missing \<open>User-Agent\<close> with \<open>beta_visitor ''::1'' []\<close>.
\<close>

definition beta_visitor :: "string \<Rightarrow> (string \<times> string) list \<Rightarrow> http_ctx" where
  "beta_visitor addr hs = incoming (get_request ''/demo/beta'' addr hs)"

text \<open>
  A table with a flag that is half rolled out and requires authentication, to tell the
  rollout check from the authentication check; and a client of \<open>/demo/multiple\<close>.
\<close>

definition staged_rollout :: "(string \<times> feature_cfg) list" where
  "staged_rollout = [(''vip-beta'', \<lparr>enabled = True, rollout = 50, requiresAuth = Some True\<rparr>)]"

definition multiple_visitor :: "(string \<times> string) list \<Rightarrow> http_ctx" where
  "multiple_visitor hs = incoming (get_request ''/demo/multiple'' ''::1'' hs)"

definition other_request :: http_ctx where
  "other_request =
     set_ctx (\<lambda>b. b\<lparr>user := Some (getUserFromToken ''demo-token-789'')\<rparr>)
       (incoming ((get_request ''/premium/dashboard'' ''::1''
                    [(''authorization'', ''Bearer demo-token-789''), (''accept'', ''*/*'')])
                  \<lparr>req_method := ''POST'', body := Inr (JObj [(''theme'', JStr ''dark'')])\<rparr>))"

text \<open>
  Clock and random readings for one run of the response transformer, and a POST that
  announces JSON with a body that cannot be read.
\<close>

definition sample_env :: transformer_env where
  "sample_env =
     \<lparr>dateNow = 1700000000000, random36 = ''0.4fzyo82mvyr'', hrStart = 1000000,
      hrEnd = 3500000, toFixed2 = (\<lambda>d. if d = 2500000 then ''2.50'' else ''0.00''),
      isoStamp = ''2023-11-14T22:13:20.000Z''\<rparr>"

definition malformed_post :: http_ctx where
  "malformed_post =
     incoming ((get_request ''/api/v1/process'' ''::1'' [(''content-type'', ''application/json'')])
               \<lparr>req_method := ''POST'', body := Inl (Error ''SyntaxError'')\<rparr>)"

text \<open>A GET and a preflight of \<open>/demo/public\<close> sent by a page of the given origin.\<close>

definition cross_origin_get :: "string \<Rightarrow> http_ctx" where
  "cross_origin_get origin = incoming (get_request ''/demo/public'' ''::1'' [(''origin'', origin)])"

definition preflight_from :: "string \<Rightarrow> http_ctx" where
  "preflight_from origin =
     incoming ((get_request ''/demo/public'' ''::1'' [(''origin'', origin)])
               \<lparr>req_method := ''OPTIONS''\<rparr>)"

section \<open>Properties of the response API\<close>

declare digits.simps [simp del] digits36.simps [simp del]

lemma final_respond:
  "final (respond n b c) = c\<lparr>response := resp_json b (resp_status n (response c))\<rparr>"
  by (simp add: respond_def)

lemma status_respond: "getStatus (response (final (respond n b c))) = n"
  by (simp add: respond_def resp_json_def resp_status_def)

lemma threw_respond: "\<not> threw (respond n b c)"
  by (simp add: respond_def)

lemma body_respond: "getBody (response (final (respond n b c))) = Some b"
  by (simp add: respond_def resp_json_def resp_status_def)

lemma request_respond: "request (final (respond n b c)) = request c"
  by (simp add: respond_def)

lemma headers_respond:
  "getHeaders (response (final (respond n b c))) = getHeaders (response c)"
  by (simp add: respond_def resp_json_def resp_status_def)

section \<open>Properties of Auth\<close>

lemma valid_token_user:
  "t \<in> set validTokens \<Longrightarrow>
     getUserFromToken t \<in> set (map snd users) \<and> getUserFromToken t \<noteq> guest \<and>
     (user_id (getUserFromToken t), user_role (getUserFromToken t))
        \<in> {(1, ''user''), (2, ''admin''), (3, ''demo'')}"
  by (auto simp: validTokens_def getUserFromToken_def users_def guest_def)

lemma Auth_no_token:
  "\<not> truthy_value (js_or_value (header (request c) ''authorization'')
                                 (input (request c) ''token'')) \<Longrightarrow>
   Auth_handle c next =
     respond 401
       (JObj [(''error'', JStr ''Authentication required''),
              (''message'', JStr ''Please provide an authentication token''),
              (''hint'', JStr ''Add Authorization header or token parameter'')]) c"
  by (simp add: Auth_handle_def Let_def)

lemma Auth_neither_present:
  "header (request c) ''authorization'' = None \<Longrightarrow> input (request c) ''token'' = None \<Longrightarrow>
   Auth_handle c next = Auth_handle c next' \<and>
   getStatus (response (final (Auth_handle c next))) = 401"
  by (simp add: Auth_no_token js_or_value_def status_respond)

lemma Auth_invalid_token:
  "js_or_value (header (request c) ''authorization'') (input (request c) ''token'')
     = Some (JStr s) \<Longrightarrow>
   s \<noteq> [] \<Longrightarrow> replace ''Bearer '' [] s \<notin> set validTokens \<Longrightarrow>
   Auth_handle c next =
     respond 401
       (JObj [(''error'', JStr ''Invalid token''),
              (''message'', JStr ''The provided token is not valid'')]) c"
  by (simp add: Auth_handle_def Let_def)

lemma Auth_valid_token:
  "js_or_value (header (request c) ''authorization'') (input (request c) ''token'')
     = Some (JStr s) \<Longrightarrow>
   s \<noteq> [] \<Longrightarrow> replace ''Bearer '' [] s \<in> set validTokens \<Longrightarrow>
   Auth_handle c next =
     next (set_ctx (\<lambda>b. b\<lparr>user := Some (getUserFromToken (replace ''Bearer '' [] s))\<rparr>) c)"
  by (simp add: Auth_handle_def Let_def)

lemma Auth_token_no_string:
  "js_or_value (header (request c) ''authorization'') (input (request c) ''token'') = Some v \<Longrightarrow>
   truthy_value (Some v) \<Longrightarrow> (\<And>s. v \<noteq> JStr s) \<Longrightarrow>
   Auth_handle c next = Threw (Error ''TypeError'') c"
  by (cases v) (auto simp: Auth_handle_def Let_def)

text \<open>
  What the authenticator can do with a request: answer 401 without calling downstream,
  throw at \<open>token.replace\<close> without calling downstream, or call downstream with a
  context whose user is one of the three records of the table (ids 1, 2, 3 with roles
  user, admin, demo) and return what downstream returns. The guest record of
  \<open>getUserFromToken\<close> is never attached.
\<close>

lemma Auth_outcomes:
  "(\<exists>r. (\<forall>next. Auth_handle c next = Returned r) \<and> getStatus (response r) = 401)
   \<or> (\<forall>next. Auth_handle c next = Threw (Error ''TypeError'') c)
   \<or> (\<exists>u. (\<forall>next. Auth_handle c next = next (set_ctx (\<lambda>b. b\<lparr>user := Some u\<rparr>) c))
          \<and> u \<in> set (map snd users) \<and> u \<noteq> guest
          \<and> (user_id u, user_role u) \<in> {(1, ''user''), (2, ''admin''), (3, ''demo'')})"
proof -
  let ?token = "js_or_value (header (request c) ''authorization'') (input (request c) ''token'')"
  consider (absent) "\<not> truthy_value ?token"
    | (other) v where "?token = Some v" "truthy_value (Some v)" "\<And>s. v \<noteq> JStr s"
    | (invalid) s where "?token = Some (JStr s)" "s \<noteq> []"
        "replace ''Bearer '' [] s \<notin> set validTokens"
    | (valid) s where "?token = Some (JStr s)" "s \<noteq> []"
        "replace ''Bearer '' [] s \<in> set validTokens"
  proof (cases ?token)
    case None
    then show ?thesis using absent by simp
  next
    case (Some v)
    show ?thesis
    proof (cases "truthy_value (Some v)")
      case False
      then show ?thesis using absent Some by simp
    next
      case True
      show ?thesis
      proof (cases "\<exists>s. v = JStr s")
        case False
        then show ?thesis using other [of v] Some True by blast
      next
        case True
        then obtain s where s: "v = JStr s" by blast
        with \<open>truthy_value (Some v)\<close> have "s \<noteq> []" by simp
        then show ?thesis using invalid [of s] valid [of s] Some s by blast
      qed
    qed
  qed
  then show ?thesis
  proof cases
    case absent
    have "\<forall>next. Auth_handle c next = Returned (final (respond 401
            (JObj [(''error'', JStr ''Authentication required''),
                   (''message'', JStr ''Please provide an authentication token''),
                   (''hint'', JStr ''Add Authorization header or token parameter'')]) c))"
      using Auth_no_token [OF absent] by (simp add: respond_def)
    then show ?thesis using status_respond by blast
  next
    case other
    then show ?thesis using Auth_token_no_string [of c v] by blast
  next
    case invalid
    have "\<forall>next. Auth_handle c next = Returned (final (respond 401
            (JObj [(''error'', JStr ''Invalid token''),
                   (''message'', JStr ''The provided token is not valid'')]) c))"
      using Auth_invalid_token [OF invalid] by (simp add: respond_def)
    then show ?thesis using status_respond by blast
  next
    case valid
    have "\<forall>next. Auth_handle c next =
            next (set_ctx (\<lambda>b. b\<lparr>user := Some (getUserFromToken
                    (replace ''Bearer '' [] s))\<rparr>) c)"
      using Auth_valid_token [OF valid] by simp
    with valid_token_user [OF valid(3)] show ?thesis by blast
  qed
qed

text \<open>
  The documented use of the protected endpoint: \<open>Authorization: Bearer user-token-123\<close>
  is answered with 200 and the user object of John Doe, role \<open>user\<close>, from any address.
\<close>

lemma protected_with_user_token:
  "threw (route_demo_protected stamp
            (incoming (get_request ''/demo/protected'' addr
               [(''authorization'', ''Bearer user-token-123'')]))) = False
   \<and> getStatus (response (final (route_demo_protected stamp
            (incoming (get_request ''/demo/protected'' addr
               [(''authorization'', ''Bearer user-token-123'')]))))) = 200
   \<and> (\<exists>kvs. getBody (response (final (route_demo_protected stamp
            (incoming (get_request ''/demo/protected'' addr
               [(''authorization'', ''Bearer user-token-123'')]))))) = Some (JObj kvs)
          \<and> map_of kvs ''user'' = Some (JObj [(''name'', JStr ''John Doe''),
                                               (''email'', JStr ''john@example.com''),
                                               (''role'', JStr ''user'')]))"
  by (simp add: route_demo_protected_def Auth_handle_def Let_def js_or_def js_or_value_def incoming_def
      get_request_def validTokens_def getUserFromToken_def users_def set_ctx_def
      DemoController_protected_def resp_json_def new_response_def empty_bag_def)

text \<open>
  C1. The authenticator answers 401 when neither the header nor the parameter is there
  (\<open>Auth_neither_present\<close>) and runs downstream with the mock user of a valid token
  (\<open>Auth_valid_token\<close>, \<open>protected_with_user_token\<close>). The remaining part, that a token
  which is not valid once a \<open>Bearer \<close> prefix is stripped is answered with 401, fails: the
  handler removes the first \<open>Bearer \<close> wherever it stands. The header value
  \<open>user-tokenBearer -123\<close> has no such prefix and is none of the three tokens, and the
  protected endpoint answers it with 200 as John Doe.
\<close>

theorem Auth_accepts_Bearer_inside_token:
  "strip_Bearer_prefix ''user-tokenBearer -123'' \<notin> set validTokens
   \<and> threw (route_demo_protected stamp
            (incoming (get_request ''/demo/protected'' ''127.0.0.1''
               [(''authorization'', ''user-tokenBearer -123'')]))) = False
   \<and> getStatus (response (final (route_demo_protected stamp
            (incoming (get_request ''/demo/protected'' ''127.0.0.1''
               [(''authorization'', ''user-tokenBearer -123'')]))))) = 200
   \<and> user (ctx (request (final (route_demo_protected stamp
            (incoming (get_request ''/demo/protected'' ''127.0.0.1''
               [(''authorization'', ''user-tokenBearer -123'')])))))) =
       Some \<lparr>user_id = 1, user_name = ''John Doe'', user_role = ''user'',
              user_email = ''john@example.com''\<rparr>"
  by (simp add: strip_Bearer_prefix_def route_demo_protected_def Auth_handle_def Let_def
      js_or_def js_or_value_def incoming_def get_request_def validTokens_def getUserFromToken_def users_def
      set_ctx_def DemoController_protected_def resp_json_def new_response_def empty_bag_def)


section \<open>Properties of Admin\<close>

lemma Admin_no_user:
  "user (ctx (request c)) = None \<Longrightarrow>
   Admin_handle c next =
     respond 401
       (JObj [(''error'', JStr ''Authentication required''),
              (''message'', JStr ''User must be authenticated before checking admin access''),
              (''hint'', JStr ''Make sure Auth middleware runs before Admin middleware'')]) c"
  by (simp add: Admin_handle_def)

lemma Admin_other_role:
  "user (ctx (request c)) = Some u \<Longrightarrow> user_role u \<noteq> ''admin'' \<Longrightarrow>
   Admin_handle c next =
     respond 403
       (JObj [(''error'', JStr ''Insufficient privileges''),
              (''message'', JStr ''Admin access required''),
              (''user'', JObj [(''name'', JStr (user_name u)),
                               (''role'', JStr (user_role u)),
                               (''requiredRole'', JStr ''admin'')])]) c"
  by (simp add: Admin_handle_def)

lemma Admin_admin_role:
  "user (ctx (request c)) = Some u \<Longrightarrow> user_role u = ''admin'' \<Longrightarrow>
   Admin_handle c next =
     next (set_ctx (\<lambda>b. b\<lparr>isAdmin := Some True,
                            adminPermissions := Some [''read_all_users'', ''delete_users'',
                              ''modify_system_settings'', ''view_analytics'']\<rparr>) c)"
  by (simp add: Admin_handle_def)

lemma admin_route_by_token:
  "getStatus (response (final (route_demo_admin stamp
      (incoming (get_request ''/demo/admin'' addr
         [(''authorization'', ''Bearer user-token-123'')]))))) = 403
   \<and> \<not> threw (route_demo_admin stamp
      (incoming (get_request ''/demo/admin'' addr
         [(''authorization'', ''Bearer admin-token-456'')])))
   \<and> getStatus (response (final (route_demo_admin stamp
      (incoming (get_request ''/demo/admin'' addr
         [(''authorization'', ''Bearer admin-token-456'')]))))) = 200"
  by (simp add: route_demo_admin_def Auth_handle_def Admin_handle_def Let_def js_or_value_def
      incoming_def get_request_def validTokens_def getUserFromToken_def users_def set_ctx_def
      DemoController_admin_def resp_json_def new_response_def empty_bag_def status_respond)

text \<open>
  C2. With no user in the context the authorizer answers 401, with a user of another
  role than \<open>admin\<close> it answers 403, in both cases whatever downstream is (it is not
  called); with an admin it calls downstream on the context extended by \<open>isAdmin\<close> and
  the four permissions, and returns what downstream returns. On \<open>/demo/admin\<close>,
  \<open>Bearer user-token-123\<close> is answered with 403 and \<open>Bearer admin-token-456\<close> with 200.
\<close>

theorem Admin_authorizes_by_role:
  "(user (ctx (request c)) = None \<longrightarrow>
      Admin_handle c next = Admin_handle c next'
      \<and> \<not> threw (Admin_handle c next)
      \<and> getStatus (response (final (Admin_handle c next))) = 401)
   \<and> (\<forall>u. user (ctx (request c)) = Some u \<and> user_role u \<noteq> ''admin'' \<longrightarrow>
      Admin_handle c next = Admin_handle c next'
      \<and> \<not> threw (Admin_handle c next)
      \<and> getStatus (response (final (Admin_handle c next))) = 403)
   \<and> (\<forall>u. user (ctx (request c)) = Some u \<and> user_role u = ''admin'' \<longrightarrow>
      Admin_handle c next =
        next (set_ctx (\<lambda>b. b\<lparr>isAdmin := Some True,
                               adminPermissions := Some [''read_all_users'', ''delete_users'',
                                 ''modify_system_settings'', ''view_analytics'']\<rparr>) c))
   \<and> getStatus (response (final (route_demo_admin stamp
        (incoming (get_request ''/demo/admin'' addr
           [(''authorization'', ''Bearer user-token-123'')]))))) = 403
   \<and> \<not> threw (route_demo_admin stamp
        (incoming (get_request ''/demo/admin'' addr
           [(''authorization'', ''Bearer admin-token-456'')])))
   \<and> getStatus (response (final (route_demo_admin stamp
        (incoming (get_request ''/demo/admin'' addr
           [(''authorization'', ''Bearer admin-token-456'')]))))) = 200"
  using admin_route_by_token [of stamp addr]
  by (simp add: Admin_no_user Admin_other_role Admin_admin_role status_respond threw_respond)

theorem Admin_authorizes_by_role_witness:
  "user (ctx (request anonymous)) = None
   \<and> getStatus (response (final (Admin_handle anonymous Returned))) = 401
   \<and> user (ctx (request (as_user (getUserFromToken ''user-token-123''))))
       = Some (getUserFromToken ''user-token-123'')
   \<and> user_role (getUserFromToken ''user-token-123'') \<noteq> ''admin''
   \<and> getStatus (response (final
         (Admin_handle (as_user (getUserFromToken ''user-token-123'')) Returned))) = 403
   \<and> user_role (getUserFromToken ''admin-token-456'') = ''admin''
   \<and> adminPermissions (ctx (request (final
         (Admin_handle (as_user (getUserFromToken ''admin-token-456'')) Returned))))
       = Some [''read_all_users'', ''delete_users'', ''modify_system_settings'', ''view_analytics'']
   \<and> isAdmin (ctx (request (final
         (Admin_handle (as_user (getUserFromToken ''admin-token-456'')) Returned)))) = Some True"
  using Admin_authorizes_by_role [of anonymous Returned Returned]
        Admin_authorizes_by_role [of "as_user (getUserFromToken ''user-token-123'')" Returned Returned]
        Admin_authorizes_by_role [of "as_user (getUserFromToken ''admin-token-456'')" Returned Returned]
  by (simp add: anonymous_def as_user_def incoming_def get_request_def empty_bag_def set_ctx_def
      getUserFromToken_def users_def)

section \<open>Properties of RateLimit\<close>

lemma rate_key_inj: "rate_key a t = rate_key a' t' \<longleftrightarrow> a = a' \<and> t = t'"
proof
  assume "rate_key a t = rate_key a' t'"
  then have "rev (rate_key a t) = rev (rate_key a' t')" by simp
  then show "a = a' \<and> t = t'"
    by (cases t; cases t'; simp add: rate_key_def)
qed simp

lemma request_data_count_update:
  "d\<lparr>count := n\<rparr> = \<lparr>count = n, resetTime = resetTime d\<rparr>"
  by (cases d) simp

lemma RateLimit_table:
  "fst (RateLimit_handle tbl now c next t) =
     tbl(rate_key (ip (request c)) t \<mapsto>
       (case tbl (rate_key (ip (request c)) t) of
          None \<Rightarrow> \<lparr>count = 1, resetTime = now + windowMs (limits t)\<rparr>
        | Some d \<Rightarrow> if now > resetTime d
                    then \<lparr>count = 1, resetTime = now + windowMs (limits t)\<rparr>
                    else \<lparr>count = count d + 1, resetTime = resetTime d\<rparr>))"
  by (simp add: RateLimit_handle_def Let_def request_data_count_update split: option.split)

text \<open>
  C7. Whatever the outcome of the request, the entry of its key afterwards follows the
  fixed-window rule: without an entry, or with the clock past the stored reset time, the
  entry is count 1 with reset time now plus the window of the tier; otherwise the count
  is one more and the reset time is the stored one.
\<close>

theorem RateLimit_fixed_window:
  "(tbl (rate_key (ip (request c)) t) = None
      \<or> (\<exists>d. tbl (rate_key (ip (request c)) t) = Some d \<and> now > resetTime d) \<longrightarrow>
    fst (RateLimit_handle tbl now c next t) (rate_key (ip (request c)) t)
      = Some \<lparr>count = 1, resetTime = now + windowMs (limits t)\<rparr>)
   \<and> (\<forall>d. tbl (rate_key (ip (request c)) t) = Some d \<and> \<not> now > resetTime d \<longrightarrow>
    fst (RateLimit_handle tbl now c next t) (rate_key (ip (request c)) t)
      = Some \<lparr>count = count d + 1, resetTime = resetTime d\<rparr>)"
  by (auto simp: RateLimit_table)

theorem RateLimit_fixed_window_witness:
  "Map.empty (rate_key (ip (request (visitor ''203.0.113.7''))) Strict) = None
   \<and> fst (RateLimit_handle Map.empty 1000 (visitor ''203.0.113.7'') Returned Strict)
        (rate_key ''203.0.113.7'' Strict) = Some \<lparr>count = 1, resetTime = 61000\<rparr>
   \<and> \<not> 2000 > resetTime \<lparr>count = 3, resetTime = 61000\<rparr>
   \<and> fst (RateLimit_handle [rate_key ''203.0.113.7'' Strict \<mapsto> \<lparr>count = 3, resetTime = 61000\<rparr>]
             2000 (visitor ''203.0.113.7'') Returned Strict)
        (rate_key ''203.0.113.7'' Strict) = Some \<lparr>count = 4, resetTime = 61000\<rparr>
   \<and> fst (RateLimit_handle [rate_key ''203.0.113.7'' Strict \<mapsto> \<lparr>count = 3, resetTime = 61000\<rparr>]
             61001 (visitor ''203.0.113.7'') Returned Strict)
        (rate_key ''203.0.113.7'' Strict) = Some \<lparr>count = 1, resetTime = 121001\<rparr>"
  using RateLimit_fixed_window [of Map.empty "visitor ''203.0.113.7''" Strict 1000 Returned]
    RateLimit_fixed_window [of "[rate_key ''203.0.113.7'' Strict \<mapsto> \<lparr>count = 3, resetTime = 61000\<rparr>]"
       "visitor ''203.0.113.7''" Strict 2000 Returned]
    RateLimit_fixed_window [of "[rate_key ''203.0.113.7'' Strict \<mapsto> \<lparr>count = 3, resetTime = 61000\<rparr>]"
       "visitor ''203.0.113.7''" Strict 61001 Returned]
  by (simp add: visitor_def incoming_def get_request_def)

lemma RateLimit_outcome_reads_own_entry:
  "tbl1 (rate_key (ip (request c)) t) = tbl2 (rate_key (ip (request c)) t) \<Longrightarrow>
   snd (RateLimit_handle tbl1 now c next t) = snd (RateLimit_handle tbl2 now c next t)"
  by (simp add: RateLimit_handle_def Let_def)

text \<open>
  C10. A request of address \<open>ip (request c)\<close> under tier \<open>t\<close> leaves the entry of every
  other pair of address and tier as it was (two pairs never share a key,
  \<open>rate_key_inj\<close>), and of every other key altogether; and its outcome is the same
  for two tables that agree on its own key. Nothing here depends on whether the request
  was allowed or answered with 429.
\<close>

theorem RateLimit_frame:
  "((a', t') \<noteq> (ip (request c), t) \<longrightarrow>
      fst (RateLimit_handle tbl now c next t) (rate_key a' t') = tbl (rate_key a' t'))
   \<and> (k \<noteq> rate_key (ip (request c)) t \<longrightarrow>
      fst (RateLimit_handle tbl now c next t) k = tbl k)
   \<and> (tbl (rate_key (ip (request c)) t) = tbl2 (rate_key (ip (request c)) t) \<longrightarrow>
      snd (RateLimit_handle tbl now c next t) = snd (RateLimit_handle tbl2 now c next t))"
  using RateLimit_outcome_reads_own_entry [of tbl c t tbl2 now "next"]
  by (auto simp: RateLimit_table rate_key_inj)


theorem RateLimit_frame_witness:
  "(''203.0.113.8'', Strict) \<noteq> (ip (request (visitor ''203.0.113.7'')), Strict)
   \<and> fst (RateLimit_handle [rate_key ''203.0.113.8'' Strict \<mapsto> \<lparr>count = 3, resetTime = 61000\<rparr>]
             2000 (visitor ''203.0.113.7'') Returned Strict)
        (rate_key ''203.0.113.8'' Strict) = Some \<lparr>count = 3, resetTime = 61000\<rparr>
   \<and> (''203.0.113.7'', Default) \<noteq> (ip (request (visitor ''203.0.113.7'')), Strict)
   \<and> fst (RateLimit_handle [rate_key ''203.0.113.7'' Default \<mapsto> \<lparr>count = 100, resetTime = 61000\<rparr>]
             2000 (visitor ''203.0.113.7'') Returned Strict)
        (rate_key ''203.0.113.7'' Default) = Some \<lparr>count = 100, resetTime = 61000\<rparr>"
  using RateLimit_frame [of "''203.0.113.8''" Strict "visitor ''203.0.113.7''" Strict
       "[rate_key ''203.0.113.8'' Strict \<mapsto> \<lparr>count = 3, resetTime = 61000\<rparr>]" 2000 Returned]
    RateLimit_frame [of "''203.0.113.7''" Default "visitor ''203.0.113.7''" Strict
       "[rate_key ''203.0.113.7'' Default \<mapsto> \<lparr>count = 100, resetTime = 61000\<rparr>]" 2000 Returned]
  by (simp add: visitor_def incoming_def get_request_def)

lemma RateLimit_opens_window:
  "tbl (rate_key (ip (request c)) t) = None
     \<or> (\<exists>d. tbl (rate_key (ip (request c)) t) = Some d \<and> now > resetTime d) \<Longrightarrow>
   1 \<le> requests (limits t) \<Longrightarrow>
   snd (RateLimit_handle tbl now c next t) =
     next (with_header ''X-RateLimit-Reset'' (toString (now + windowMs (limits t)))
            (with_header ''X-RateLimit-Remaining'' (toString (requests (limits t) - 1))
              (with_header ''X-RateLimit-Limit'' (toString (requests (limits t))) c)))"
  by (auto simp: RateLimit_handle_def Let_def)

lemma RateLimit_allows_in_window:
  "tbl (rate_key (ip (request c)) t) = Some d \<Longrightarrow> \<not> now > resetTime d \<Longrightarrow>
   count d + 1 \<le> requests (limits t) \<Longrightarrow>
   snd (RateLimit_handle tbl now c next t) =
     next (with_header ''X-RateLimit-Reset'' (toString (resetTime d))
            (with_header ''X-RateLimit-Remaining'' (toString (requests (limits t) - (count d + 1)))
              (with_header ''X-RateLimit-Limit'' (toString (requests (limits t))) c)))"
  by (simp add: RateLimit_handle_def Let_def)

lemma RateLimit_rejects_in_window:
  "tbl (rate_key (ip (request c)) t) = Some d \<Longrightarrow> \<not> now > resetTime d \<Longrightarrow>
   count d + 1 > requests (limits t) \<Longrightarrow>
   \<not> threw (snd (RateLimit_handle tbl now c next t)) \<and>
   getStatus (response (final (snd (RateLimit_handle tbl now c next t)))) = 429 \<and>
   getHeaders (response (final (snd (RateLimit_handle tbl now c next t)))) ''Retry-After''
     = Some (toString (ceil_div1000 (resetTime d - now)))"
  by (simp add: RateLimit_handle_def Let_def status_respond threw_respond headers_respond
      with_header_def resp_header_def)


lemma serve_Cons:
  "serve tbl ((now, c) # rs) next t =
     snd (RateLimit_handle tbl now c next t)
       # serve (fst (RateLimit_handle tbl now c next t)) rs next t"
  by (simp split: prod.splits)

declare serve.simps(2) [simp del]

lemma serve_length: "length (serve tbl rs next t) = length rs"
  by (induction rs arbitrary: tbl) (auto simp: serve_Cons)

lemma serve_nth_in_window:
  "tbl (rate_key a t) = Some d \<Longrightarrow>
   \<forall>r\<in>set rs. ip (request (snd r)) = a \<and> \<not> fst r > resetTime d \<Longrightarrow>
   i < length rs \<Longrightarrow>
   serve tbl rs next t ! i =
     snd (RateLimit_handle (tbl(rate_key a t \<mapsto> d\<lparr>count := count d + int i\<rparr>))
            (fst (rs ! i)) (snd (rs ! i)) next t)"
proof (induction rs arbitrary: tbl d i)
  case Nil
  then show ?case by simp
next
  case (Cons r rs)
  obtain now c where r: "r = (now, c)" by (cases r)
  from Cons.prems(2) r have a: "ip (request c) = a" and w: "\<not> now > resetTime d" by auto
  show ?case
  proof (cases i)
    case 0
    have "tbl(rate_key a t \<mapsto> d) = tbl" using Cons.prems(1) by (simp add: map_upd_triv)
    then show ?thesis unfolding r 0 serve_Cons by simp
  next
    case (Suc j)
    let ?d' = "\<lparr>count = count d + 1, resetTime = resetTime d\<rparr>"
    let ?tbl' = "fst (RateLimit_handle tbl now c next t)"
    have t': "?tbl' = tbl(rate_key a t \<mapsto> ?d')"
      using Cons.prems(1) a w by (simp add: RateLimit_table)
    then have k: "?tbl' (rate_key a t) = Some ?d'" by simp
    have rest: "\<forall>r\<in>set rs. ip (request (snd r)) = a \<and> \<not> fst r > resetTime ?d'"
      using Cons.prems(2) by simp
    have j: "j < length rs" using Cons.prems(3) Suc by simp
    have "serve tbl (r # rs) next t ! i = serve ?tbl' rs next t ! j"
      unfolding r Suc serve_Cons by simp
    also have "\<dots> =
            snd (RateLimit_handle (?tbl'(rate_key a t \<mapsto> ?d'\<lparr>count := count ?d' + int j\<rparr>))
                   (fst (rs ! j)) (snd (rs ! j)) next t)"
      using Cons.IH [of ?tbl' ?d' j] k rest j by blast
    also have "?tbl'(rate_key a t \<mapsto> ?d'\<lparr>count := count ?d' + int j\<rparr>)
                     = tbl(rate_key a t \<mapsto> d\<lparr>count := count d + int i\<rparr>)"
      using Suc by (simp add: t' request_data_count_update add.assoc)
    also have "rs ! j = (r # rs) ! i" using Suc by simp
    finally show ?thesis .
  qed
qed


lemma rateLimited_action:
  "\<not> threw (DemoController_rateLimited c)
   \<and> getStatus (response (final (DemoController_rateLimited c))) = getStatus (response c)
   \<and> getHeaders (response (final (DemoController_rateLimited c))) = getHeaders (response c)"
  by (simp add: DemoController_rateLimited_def resp_json_def)

lemma rateLimited_body_with_header:
  "getBody (response (final (DemoController_rateLimited (with_header k v c))))
     = getBody (response (final (DemoController_rateLimited c)))"
  by (simp add: DemoController_rateLimited_def resp_json_def with_header_def)

lemma with_header_status: "getStatus (response (with_header k v c)) = getStatus (response c)"
  by (simp add: with_header_def resp_header_def)

lemma with_header_lookup:
  "getHeaders (response (with_header k v c)) k' =
     (if k' = k then Some v else getHeaders (response c) k')"
  by (simp add: with_header_def resp_header_def)

text \<open>
  C3. Eleven requests to \<open>/demo/rate-limited\<close> from one address \<open>a\<close>, the first of
  which opens a window (no entry for the key, or an expired one) and none of which
  arrives after that window's reset time: request number \<open>i + 1\<close> for \<open>i < 10\<close> is
  answered by the action with status 200 and \<open>X-RateLimit-Remaining\<close> equal to
  \<open>9 - i\<close>, the eleventh with status 429 and a \<open>Retry-After\<close> header (the seconds left
  in the window, rounded up).
\<close>

theorem strict_limit_eleven_requests:
  assumes len: "length rs = 11"
    and reqs: "\<forall>r\<in>set rs. ip (request (snd r)) = a \<and> response (snd r) = new_response
                 \<and> fst r \<le> fst (hd rs) + 60000"
    and opens: "tbl (rate_key a Strict) = None
                 \<or> (\<exists>d. tbl (rate_key a Strict) = Some d \<and> fst (hd rs) > resetTime d)"
  shows "(\<forall>i<10.
            \<not> threw (route_demo_rate_limited tbl rs ! i)
          \<and> getStatus (response (final (route_demo_rate_limited tbl rs ! i))) = 200
          \<and> getBody (response (final (route_demo_rate_limited tbl rs ! i)))
              = getBody (response (final (DemoController_rateLimited (snd (rs ! i)))))
          \<and> getHeaders (response (final (route_demo_rate_limited tbl rs ! i)))
                ''X-RateLimit-Remaining'' = Some (toString (9 - int i)))
       \<and> \<not> threw (route_demo_rate_limited tbl rs ! 10)
       \<and> getStatus (response (final (route_demo_rate_limited tbl rs ! 10))) = 429
       \<and> getHeaders (response (final (route_demo_rate_limited tbl rs ! 10))) ''Retry-After''
           = Some (toString (ceil_div1000 (fst (hd rs) + 60000 - fst (rs ! 10))))"
proof -
  obtain r0 rest where rs: "rs = r0 # rest" and rest_len: "length rest = 10"
    using len by (cases rs) auto
  obtain now0 c0 where r0: "r0 = (now0, c0)" by (cases r0)
  let ?next = DemoController_rateLimited
  let ?key = "rate_key a Strict"
  let ?d1 = "\<lparr>count = 1, resetTime = now0 + 60000\<rparr>"
  let ?tbl1 = "fst (RateLimit_handle tbl now0 c0 ?next Strict)"
  have ip0: "ip (request c0) = a" and resp0: "response c0 = new_response"
    using reqs rs r0 by auto
  have opens0: "tbl (rate_key (ip (request c0)) Strict) = None
                 \<or> (\<exists>d. tbl (rate_key (ip (request c0)) Strict) = Some d \<and> now0 > resetTime d)"
    using opens rs r0 ip0 by simp
  have tbl1: "?tbl1 ?key = Some ?d1"
    using opens0 ip0 by (auto simp: RateLimit_table)
  have rest_ok: "\<forall>r\<in>set rest. ip (request (snd r)) = a \<and> \<not> fst r > resetTime ?d1"
    using reqs rs r0 by auto
  have rest_resp: "\<forall>r\<in>set rest. response (snd r) = new_response"
    using reqs rs by auto
  have unfold: "route_demo_rate_limited tbl rs =
                  snd (RateLimit_handle tbl now0 c0 ?next Strict) # serve ?tbl1 rest ?next Strict"
    by (simp add: route_demo_rate_limited_def rs r0 serve_Cons)
  have first: "snd (RateLimit_handle tbl now0 c0 ?next Strict) =
     ?next (with_header ''X-RateLimit-Reset'' (toString (now0 + 60000))
            (with_header ''X-RateLimit-Remaining'' (toString 9)
              (with_header ''X-RateLimit-Limit'' (toString 10) c0)))"
    using RateLimit_opens_window [of tbl c0 Strict now0 "?next"] opens0 by simp
  have later: "serve ?tbl1 rest ?next Strict ! j =
       snd (RateLimit_handle (?tbl1(?key \<mapsto> \<lparr>count = 1 + int j, resetTime = now0 + 60000\<rparr>))
              (fst (rest ! j)) (snd (rest ! j)) ?next Strict)" if "j < 10" for j
    using serve_nth_in_window [of ?tbl1 a Strict ?d1 rest j "?next"] tbl1 rest_ok that rest_len
    by (simp add: request_data_count_update)
  have allowed: "\<not> threw (route_demo_rate_limited tbl rs ! i)
          \<and> getStatus (response (final (route_demo_rate_limited tbl rs ! i))) = 200
          \<and> getBody (response (final (route_demo_rate_limited tbl rs ! i)))
              = getBody (response (final (DemoController_rateLimited (snd (rs ! i)))))
          \<and> getHeaders (response (final (route_demo_rate_limited tbl rs ! i)))
                ''X-RateLimit-Remaining'' = Some (toString (9 - int i))" if "i < 10" for i
  proof (cases i)
    case 0
    then show ?thesis
      unfolding unfold first
      by (simp add: rateLimited_action rateLimited_body_with_header with_header_status
          with_header_lookup resp0 new_response_def rs r0)
  next
    case (Suc j)
    with that have j: "j < 10" "j < 9" by simp_all
    let ?c = "snd (rest ! j)" and ?now = "fst (rest ! j)"
    let ?t = "?tbl1(?key \<mapsto> \<lparr>count = 1 + int j, resetTime = now0 + 60000\<rparr>)"
    have mem: "rest ! j \<in> set rest" using j rest_len by simp
    have cj: "ip (request ?c) = a" "\<not> ?now > now0 + 60000" "response ?c = new_response"
      using rest_ok rest_resp mem by auto
    have "snd (RateLimit_handle ?t ?now ?c ?next Strict) =
       ?next (with_header ''X-RateLimit-Reset'' (toString (now0 + 60000))
            (with_header ''X-RateLimit-Remaining'' (toString (10 - (1 + int j + 1)))
              (with_header ''X-RateLimit-Limit'' (toString 10) ?c)))"
      using RateLimit_allows_in_window [of ?t ?c Strict
               "\<lparr>count = 1 + int j, resetTime = now0 + 60000\<rparr>" ?now "?next"] cj j
      by simp
    moreover have "10 - (1 + int j + 1) = 9 - int i" using Suc by simp
    ultimately show ?thesis
      unfolding unfold Suc nth_Cons_Suc later [OF j(1)]
      by (simp add: rateLimited_action rateLimited_body_with_header with_header_status
          with_header_lookup cj new_response_def rs)
  qed
  let ?c = "snd (rest ! 9)" and ?now = "fst (rest ! 9)"
  let ?t = "?tbl1(?key \<mapsto> \<lparr>count = 1 + int 9, resetTime = now0 + 60000\<rparr>)"
  have mem: "rest ! 9 \<in> set rest" using rest_len by simp
  have c9: "ip (request ?c) = a" "\<not> ?now > now0 + 60000"
    using rest_ok mem by auto
  have eleventh: "route_demo_rate_limited tbl rs ! 10 = snd (RateLimit_handle ?t ?now ?c ?next Strict)"
    using later [of 9] unfolding unfold by simp
  have "\<not> threw (route_demo_rate_limited tbl rs ! 10)
       \<and> getStatus (response (final (route_demo_rate_limited tbl rs ! 10))) = 429
       \<and> getHeaders (response (final (route_demo_rate_limited tbl rs ! 10))) ''Retry-After''
           = Some (toString (ceil_div1000 (fst (hd rs) + 60000 - fst (rs ! 10))))"
    unfolding eleventh
    using RateLimit_rejects_in_window [of ?t ?c Strict
               "\<lparr>count = 1 + int 9, resetTime = now0 + 60000\<rparr>" ?now "?next"] c9
    by (simp add: rs r0)
  with allowed show ?thesis by blast
qed


theorem strict_limit_eleven_requests_witness:
  "length eleven_arrivals = 11
   \<and> list_all (\<lambda>r. ip (request (snd r)) = ''203.0.113.7''
          \<and> response (snd r) = new_response \<and> fst r \<le> fst (hd eleven_arrivals) + 60000)
        eleven_arrivals
   \<and> getStatus (response (final (route_demo_rate_limited Map.empty eleven_arrivals ! 0))) = 200
   \<and> getHeaders (response (final (route_demo_rate_limited Map.empty eleven_arrivals ! 0)))
        ''X-RateLimit-Remaining'' = Some ''9''
   \<and> getStatus (response (final (route_demo_rate_limited Map.empty eleven_arrivals ! 9))) = 200
   \<and> getHeaders (response (final (route_demo_rate_limited Map.empty eleven_arrivals ! 9)))
        ''X-RateLimit-Remaining'' = Some ''0''
   \<and> getStatus (response (final (route_demo_rate_limited Map.empty eleven_arrivals ! 10))) = 429
   \<and> getHeaders (response (final (route_demo_rate_limited Map.empty eleven_arrivals ! 10)))
        ''Retry-After'' = Some ''50''"
proof -
  have len: "length eleven_arrivals = 11" by (simp add: eleven_arrivals_def)
  have reqs: "\<forall>r\<in>set eleven_arrivals. ip (request (snd r)) = ''203.0.113.7''
          \<and> response (snd r) = new_response \<and> fst r \<le> fst (hd eleven_arrivals) + 60000"
    by (simp add: eleven_arrivals_def visitor_def incoming_def get_request_def)
  have opens: "Map.empty (rate_key ''203.0.113.7'' Strict) = None
                 \<or> (\<exists>d. Map.empty (rate_key ''203.0.113.7'' Strict) = Some d
                        \<and> fst (hd eleven_arrivals) > resetTime d)"
    by simp
  note all = strict_limit_eleven_requests [OF len reqs opens]
  have first: "(0::nat) < 10" and tenth: "(9::nat) < 10" by simp_all
  have times: "fst (hd eleven_arrivals) = 1000" "fst (eleven_arrivals ! 10) = 11000"
    by (simp_all add: eleven_arrivals_def)
  show ?thesis
    using len reqs [folded list_all_iff] all [THEN conjunct1, rule_format, OF first]
      all [THEN conjunct1, rule_format, OF tenth] all [THEN conjunct2]
    by (simp add: times toString_def ceil_div1000_def digits.simps)
qed

section \<open>Properties of FeatureFlag\<close>

lemma rollout_bucket_range:
  "0 \<le> getUserRolloutId r mod 100 \<and> getUserRolloutId r mod 100 < 100"
  by simp

lemma get_property_own: "map_of obj name = Some v \<Longrightarrow> get_property obj name = Own v"
  by (simp add: get_property_def)

lemma get_property_undefined:
  "name \<notin> set (map fst obj) \<Longrightarrow> name \<notin> set object_prototype_names \<Longrightarrow>
   get_property obj name = Undefined"
  by (simp add: get_property_def map_of_eq_None_iff [THEN iffD2] image_iff)

subsection \<open>The guards of the gate, for any table\<close>

lemma FeatureFlag_of_undefined:
  "get_property feats f = Undefined \<Longrightarrow>
   FeatureFlag_handle_of feats c next f =
     respond 404
       (JObj [(''error'', JStr ''Feature not found''),
              (''message'', JStr (''Feature '' @ quoted f @ '' is not configured'')),
              (''availableFeatures'', JArr (map (JStr \<circ> fst) feats))]) c"
  by (simp add: FeatureFlag_handle_of_def)

lemma FeatureFlag_of_inherited:
  "get_property feats f = Inherited \<Longrightarrow>
   FeatureFlag_handle_of feats c next f =
     respond 403
       (JObj [(''error'', JStr ''Feature disabled''),
              (''message'', JStr (''Feature '' @ quoted f @ '' is currently disabled'')),
              (''feature'', JObj [(''name'', JStr f), (''enabled'', JBool False)])]) c"
  by (simp add: FeatureFlag_handle_of_def)

lemma FeatureFlag_of_disabled:
  "get_property feats f = Own feat \<Longrightarrow> \<not> enabled feat \<Longrightarrow>
   FeatureFlag_handle_of feats c next f =
     respond 403
       (JObj [(''error'', JStr ''Feature disabled''),
              (''message'', JStr (''Feature '' @ quoted f @ '' is currently disabled'')),
              (''feature'', JObj [(''name'', JStr f), (''enabled'', JBool False)])]) c"
  by (simp add: FeatureFlag_handle_of_def)

lemma FeatureFlag_of_outside_rollout:
  "get_property feats f = Own feat \<Longrightarrow> enabled feat \<Longrightarrow>
   getUserRolloutId (request c) mod 100 \<ge> rollout feat \<Longrightarrow>
   FeatureFlag_handle_of feats c next f =
     respond 403
       (JObj [(''error'', JStr ''Feature not available''),
              (''message'', JStr (''Feature '' @ quoted f @ '' is not available for your account'')),
              (''feature'', JObj [(''name'', JStr f),
                                  (''enabled'', JBool True),
                                  (''inRollout'', JBool False),
                                  (''rolloutPercentage'', JNum (rollout feat))])]) c"
  by (simp add: FeatureFlag_handle_of_def Let_def)

lemma FeatureFlag_of_needs_user:
  "get_property feats f = Own feat \<Longrightarrow> enabled feat \<Longrightarrow>
   \<not> getUserRolloutId (request c) mod 100 \<ge> rollout feat \<Longrightarrow>
   requiresAuth feat = Some True \<Longrightarrow> user (ctx (request c)) = None \<Longrightarrow>
   FeatureFlag_handle_of feats c next f =
     respond 401
       (JObj [(''error'', JStr ''Authentication required''),
              (''message'', JStr (''Feature '' @ quoted f @ '' requires user authentication'')),
              (''feature'', JObj [(''name'', JStr f), (''requiresAuth'', JBool True)])]) c"
  by (simp add: FeatureFlag_handle_of_def Let_def)

lemma FeatureFlag_of_admits:
  "get_property feats f = Own feat \<Longrightarrow> enabled feat \<Longrightarrow>
   \<not> getUserRolloutId (request c) mod 100 \<ge> rollout feat \<Longrightarrow>
   \<not> (requiresAuth feat = Some True \<and> user (ctx (request c)) = None) \<Longrightarrow>
   FeatureFlag_handle_of feats c next f =
     (case next (set_ctx (\<lambda>b. b\<lparr>feature := Some
                   \<lparr>fc_name = f, fc_enabled = True,
                    fc_rolloutId = getUserRolloutId (request c),
                    fc_rolloutPercentage = rollout feat\<rparr>\<rparr>) c) of
        Threw e c' \<Rightarrow> Threw e c'
      | Returned c' \<Rightarrow>
          Returned (with_header ''X-Feature-Rollout'' (toString (rollout feat))
                     (with_header ''X-Feature-Enabled'' ''true''
                       (with_header ''X-Feature-Flag'' f c'))))"
  by (auto simp: FeatureFlag_handle_of_def Let_def)

subsection \<open>The gate of the class\<close>

lemma FeatureFlag_outside_rollout:
  "map_of features f = Some feat \<Longrightarrow> enabled feat \<Longrightarrow>
   getUserRolloutId (request c) mod 100 \<ge> rollout feat \<Longrightarrow>
   FeatureFlag_handle c next f =
     respond 403
       (JObj [(''error'', JStr ''Feature not available''),
              (''message'', JStr (''Feature '' @ quoted f @ '' is not available for your account'')),
              (''feature'', JObj [(''name'', JStr f),
                                  (''enabled'', JBool True),
                                  (''inRollout'', JBool False),
                                  (''rolloutPercentage'', JNum (rollout feat))])]) c"
  unfolding FeatureFlag_handle_def
  by (rule FeatureFlag_of_outside_rollout [OF get_property_own])

lemma FeatureFlag_admits:
  "map_of features f = Some feat \<Longrightarrow> enabled feat \<Longrightarrow>
   \<not> getUserRolloutId (request c) mod 100 \<ge> rollout feat \<Longrightarrow>
   \<not> (requiresAuth feat = Some True \<and> user (ctx (request c)) = None) \<Longrightarrow>
   FeatureFlag_handle c next f =
     (case next (set_ctx (\<lambda>b. b\<lparr>feature := Some
                   \<lparr>fc_name = f, fc_enabled = True,
                    fc_rolloutId = getUserRolloutId (request c),
                    fc_rolloutPercentage = rollout feat\<rparr>\<rparr>) c) of
        Threw e c' \<Rightarrow> Threw e c'
      | Returned c' \<Rightarrow>
          Returned (with_header ''X-Feature-Rollout'' (toString (rollout feat))
                     (with_header ''X-Feature-Enabled'' ''true''
                       (with_header ''X-Feature-Flag'' f c'))))"
  unfolding FeatureFlag_handle_def
  by (rule FeatureFlag_of_admits [OF get_property_own])

lemma features_lookup:
  "map_of features ''new-api'' = Some \<lparr>enabled = True, rollout = 100, requiresAuth = None\<rparr>"
  "map_of features ''beta-features'' = Some \<lparr>enabled = True, rollout = 50, requiresAuth = None\<rparr>"
  "map_of features ''experimental'' = Some \<lparr>enabled = False, rollout = 0, requiresAuth = None\<rparr>"
  "map_of features ''premium-features''
     = Some \<lparr>enabled = True, rollout = 100, requiresAuth = Some True\<rparr>"
  by (simp_all add: features_def)

text \<open>
  A name that every object inherits passes the first guard and is answered by the
  second: 403, not 404.
\<close>

lemma FeatureFlag_inherited_name:
  "getStatus (response (final (FeatureFlag_handle c next ''constructor''))) = 403
   \<and> getStatus (response (final (FeatureFlag_handle c next ''__proto__''))) = 403
   \<and> getStatus (response (final (FeatureFlag_handle c next ''toString''))) = 403"
proof -
  have "get_property features ''constructor'' = Inherited"
       "get_property features ''__proto__'' = Inherited"
       "get_property features ''toString'' = Inherited"
    by (simp_all add: get_property_def features_def object_prototype_names_def)
  then show ?thesis
    by (simp add: FeatureFlag_handle_def FeatureFlag_of_inherited status_respond)
qed

lemma new_api_always_admitted:
  "FeatureFlag_handle c next ''new-api'' =
     (case next (set_ctx (\<lambda>b. b\<lparr>feature := Some
                   \<lparr>fc_name = ''new-api'', fc_enabled = True,
                    fc_rolloutId = getUserRolloutId (request c),
                    fc_rolloutPercentage = 100\<rparr>\<rparr>) c) of
        Threw e c' \<Rightarrow> Threw e c'
      | Returned c' \<Rightarrow>
          Returned (with_header ''X-Feature-Rollout'' (toString 100)
                     (with_header ''X-Feature-Enabled'' ''true''
                       (with_header ''X-Feature-Flag'' ''new-api'' c'))))"
proof -
  let ?feat = "\<lparr>enabled = True, rollout = 100, requiresAuth = None\<rparr>"
  have "enabled ?feat" by simp
  moreover have "\<not> getUserRolloutId (request c) mod 100 \<ge> rollout ?feat" by simp
  moreover have "\<not> (requiresAuth ?feat = Some True \<and> user (ctx (request c)) = None)" by simp
  ultimately show ?thesis
    using FeatureFlag_admits [of "''new-api''" ?feat c "next"] features_lookup(1)
    by (simp cong: outcome.case_cong)
qed

lemma experimental_always_disabled:
  "route_demo_experimental c =
     respond 403
       (JObj [(''error'', JStr ''Feature disabled''),
              (''message'', JStr (''Feature '' @ quoted ''experimental'' @ '' is currently disabled'')),
              (''feature'', JObj [(''name'', JStr ''experimental''), (''enabled'', JBool False)])]) c"
  unfolding route_demo_experimental_def FeatureFlag_handle_def
  using FeatureFlag_of_disabled [OF get_property_own [OF features_lookup(3)]] by simp

subsection \<open>The route behind the 100% flag\<close>

lemma multipleMiddleware_keeps_status:
  "\<not> threw (DemoController_multipleMiddleware c)
   \<and> getStatus (response (final (DemoController_multipleMiddleware c))) = getStatus (response c)"
  by (simp add: DemoController_multipleMiddleware_def Let_def resp_json_def)

lemma new_api_gate_keeps_status:
  "\<not> threw (FeatureFlag_handle c DemoController_multipleMiddleware ''new-api'')
   \<and> getStatus (response (final
         (FeatureFlag_handle c DemoController_multipleMiddleware ''new-api'')))
       = getStatus (response c)"
  unfolding new_api_always_admitted
  by (simp add: DemoController_multipleMiddleware_def Let_def resp_json_def with_header_status
      set_ctx_def)

lemma DeviceDetector_keeps_status:
  assumes "\<And>c1. \<not> threw (next c1)
                  \<and> getStatus (response (final (next c1))) = getStatus (response c1)"
  shows "\<not> threw (DeviceDetector_handle stamp c next)
         \<and> getStatus (response (final (DeviceDetector_handle stamp c next)))
             = getStatus (response c)"
proof -
  let ?ua = "case js_or (header (request c) ''user-agent'') (Some []) of
               None \<Rightarrow> [] | Some s \<Rightarrow> s"
  let ?d = "parseUserAgent stamp ?ua"
  let ?c1 = "with_header ''X-OS'' (dev_os ?d)
               (with_header ''X-Browser'' (dev_browser ?d)
                 (with_header ''X-Device-Type'' (dev_type ?d)
                   (set_ctx (\<lambda>b. b\<lparr>device := Some ?d\<rparr>) c)))"
  from assms [of ?c1] obtain c' where c': "next ?c1 = Returned c'"
    and st: "getStatus (response c') = getStatus (response ?c1)"
    by (cases "next ?c1") auto
  have "getStatus (response ?c1) = getStatus (response c)"
    by (simp add: with_header_status set_ctx_def)
  with c' st show ?thesis
    by (simp add: DeviceDetector_handle_def Let_def resp_json_def
        split: option.splits json.splits)
qed

lemma multiple_route_with_valid_token:
  assumes "js_or_value (header (request c) ''authorization'') (input (request c) ''token'')
             = Some (JStr s)"
    and "s \<noteq> []" and "replace ''Bearer '' [] s \<in> set validTokens"
  shows "\<not> threw (route_demo_multiple stamp c)
         \<and> getStatus (response (final (route_demo_multiple stamp c))) = getStatus (response c)"
proof -
  let ?gate = "\<lambda>c. FeatureFlag_handle c DemoController_multipleMiddleware ''new-api''"
  let ?c1 = "set_ctx (\<lambda>b. b\<lparr>user := Some (getUserFromToken (replace ''Bearer '' [] s))\<rparr>) c"
  have "route_demo_multiple stamp c = DeviceDetector_handle stamp ?c1 ?gate"
    unfolding route_demo_multiple_def by (rule Auth_valid_token [OF assms])
  moreover have "\<not> threw (DeviceDetector_handle stamp ?c1 ?gate)
         \<and> getStatus (response (final (DeviceDetector_handle stamp ?c1 ?gate)))
             = getStatus (response ?c1)"
    by (rule DeviceDetector_keeps_status) (rule new_api_gate_keeps_status)
  ultimately show ?thesis by (simp add: set_ctx_def)
qed

text \<open>
  C4, as the specification words it, lets every request to the endpoint of the 100%
  flag return 200, whoever the client is. That endpoint is \<open>/demo/multiple\<close>, and the
  authenticator stands in front of its gate: a request without token is answered 401.
\<close>

theorem multiple_route_without_token:
  "getStatus (response (final (route_demo_multiple ''2023-11-14T22:13:20.000Z''
      (incoming (get_request ''/demo/multiple'' ''::1'' []))))) = 401"
  by (simp add: route_demo_multiple_def Auth_handle_def Let_def js_or_value_def incoming_def
      get_request_def status_respond)

text \<open>
  C4, amended. For any table of flags the gate checks in this order, and the body of
  the answer tells which check answered: a name that is neither in the table nor
  inherited by every object is answered with 404 \<open>Feature not found\<close>; a disabled flag
  with 403 \<open>Feature disabled\<close>, whatever its rollout; an enabled flag whose rollout the
  client's bucket (\<open>getUserRolloutId mod 100\<close>) is not below with 403
  \<open>Feature not available\<close>, whether or not it requires authentication; an enabled flag
  inside the rollout that requires authentication, on a context without user, with 401.
  None of these four answers depends on downstream. Otherwise downstream runs on the
  context extended by the flag's metadata and the \<open>X-Feature-*\<close> headers are added to
  what it returns. For the table of the class: \<open>/demo/experimental\<close> is answered with
  403 \<open>Feature disabled\<close> for every request; the gate of the 100% flag \<open>new-api\<close> hands
  every request to downstream, whatever its address and \<open>User-Agent\<close>; and its endpoint
  \<open>/demo/multiple\<close> returns 200 for every request with a valid token, 401 for every
  request without token.
\<close>

theorem FeatureFlag_checks_in_order:
  "(get_property feats f = Undefined \<longrightarrow>
      FeatureFlag_handle_of feats c next f =
        respond 404
          (JObj [(''error'', JStr ''Feature not found''),
                 (''message'', JStr (''Feature '' @ quoted f @ '' is not configured'')),
                 (''availableFeatures'', JArr (map (JStr \<circ> fst) feats))]) c)
   \<and> (\<forall>feat. get_property feats f = Own feat \<and> \<not> enabled feat \<longrightarrow>
      FeatureFlag_handle_of feats c next f =
        respond 403
          (JObj [(''error'', JStr ''Feature disabled''),
                 (''message'', JStr (''Feature '' @ quoted f @ '' is currently disabled'')),
                 (''feature'', JObj [(''name'', JStr f), (''enabled'', JBool False)])]) c)
   \<and> (\<forall>feat. get_property feats f = Own feat \<and> enabled feat
         \<and> getUserRolloutId (request c) mod 100 \<ge> rollout feat \<longrightarrow>
      FeatureFlag_handle_of feats c next f =
        respond 403
          (JObj [(''error'', JStr ''Feature not available''),
                 (''message'',
                    JStr (''Feature '' @ quoted f @ '' is not available for your account'')),
                 (''feature'', JObj [(''name'', JStr f),
                                     (''enabled'', JBool True),
                                     (''inRollout'', JBool False),
                                     (''rolloutPercentage'', JNum (rollout feat))])]) c)
   \<and> (\<forall>feat. get_property feats f = Own feat \<and> enabled feat
         \<and> \<not> getUserRolloutId (request c) mod 100 \<ge> rollout feat
         \<and> requiresAuth feat = Some True \<and> user (ctx (request c)) = None \<longrightarrow>
      FeatureFlag_handle_of feats c next f =
        respond 401
          (JObj [(''error'', JStr ''Authentication required''),
                 (''message'', JStr (''Feature '' @ quoted f @ '' requires user authentication'')),
                 (''feature'', JObj [(''name'', JStr f), (''requiresAuth'', JBool True)])]) c)
   \<and> (\<forall>feat. get_property feats f = Own feat \<and> enabled feat
         \<and> \<not> getUserRolloutId (request c) mod 100 \<ge> rollout feat
         \<and> \<not> (requiresAuth feat = Some True \<and> user (ctx (request c)) = None) \<longrightarrow>
      FeatureFlag_handle_of feats c next f =
        (case next (set_ctx (\<lambda>b. b\<lparr>feature := Some
                      \<lparr>fc_name = f, fc_enabled = True,
                       fc_rolloutId = getUserRolloutId (request c),
                       fc_rolloutPercentage = rollout feat\<rparr>\<rparr>) c) of
           Threw e c' \<Rightarrow> Threw e c'
         | Returned c' \<Rightarrow>
             Returned (with_header ''X-Feature-Rollout'' (toString (rollout feat))
                        (with_header ''X-Feature-Enabled'' ''true''
                          (with_header ''X-Feature-Flag'' f c')))))
   \<and> (f \<notin> set (map fst features) \<and> f \<notin> set object_prototype_names \<longrightarrow>
        FeatureFlag_handle c next f = FeatureFlag_handle c next' f
        \<and> \<not> threw (FeatureFlag_handle c next f)
        \<and> getStatus (response (final (FeatureFlag_handle c next f))) = 404)
   \<and> route_demo_experimental c =
        respond 403
          (JObj [(''error'', JStr ''Feature disabled''),
                 (''message'',
                    JStr (''Feature '' @ quoted ''experimental'' @ '' is currently disabled'')),
                 (''feature'', JObj [(''name'', JStr ''experimental''),
                                     (''enabled'', JBool False)])]) c
   \<and> getStatus (response (final (route_demo_experimental c))) = 403
   \<and> FeatureFlag_handle c next ''new-api'' =
        (case next (set_ctx (\<lambda>b. b\<lparr>feature := Some
                      \<lparr>fc_name = ''new-api'', fc_enabled = True,
                       fc_rolloutId = getUserRolloutId (request c),
                       fc_rolloutPercentage = 100\<rparr>\<rparr>) c) of
           Threw e c' \<Rightarrow> Threw e c'
         | Returned c' \<Rightarrow>
             Returned (with_header ''X-Feature-Rollout'' (toString 100)
                        (with_header ''X-Feature-Enabled'' ''true''
                          (with_header ''X-Feature-Flag'' ''new-api'' c'))))
   \<and> (\<forall>s. js_or_value (header (request c) ''authorization'') (input (request c) ''token'')
              = Some (JStr s)
            \<and> s \<noteq> [] \<and> replace ''Bearer '' [] s \<in> set validTokens
            \<and> getStatus (response c) = 200 \<longrightarrow>
         \<not> threw (route_demo_multiple stamp c)
         \<and> getStatus (response (final (route_demo_multiple stamp c))) = 200)
   \<and> (header (request c) ''authorization'' = None \<and> input (request c) ''token'' = None \<longrightarrow>
         \<not> threw (route_demo_multiple stamp c)
         \<and> getStatus (response (final (route_demo_multiple stamp c))) = 401)"
proof -
  have unknown: "FeatureFlag_handle c n f =
        respond 404
          (JObj [(''error'', JStr ''Feature not found''),
                 (''message'', JStr (''Feature '' @ quoted f @ '' is not configured'')),
                 (''availableFeatures'', JArr (map (JStr \<circ> fst) features))]) c"
    if "f \<notin> set (map fst features)" "f \<notin> set object_prototype_names" for n
    unfolding FeatureFlag_handle_def
    by (rule FeatureFlag_of_undefined [OF get_property_undefined [OF that]])
  have no_token: "\<not> threw (route_demo_multiple stamp c)
         \<and> getStatus (response (final (route_demo_multiple stamp c))) = 401"
    if "header (request c) ''authorization'' = None" "input (request c) ''token'' = None"
    using that
    by (simp add: route_demo_multiple_def Auth_no_token js_or_value_def status_respond
        threw_respond)
  show ?thesis
    unfolding experimental_always_disabled
    using new_api_always_admitted [of c "next"] multiple_route_with_valid_token [of c _ stamp]
      no_token
    by (simp add: FeatureFlag_of_undefined FeatureFlag_of_disabled
        FeatureFlag_of_outside_rollout FeatureFlag_of_needs_user FeatureFlag_of_admits
        unknown status_respond threw_respond)
qed

lemma ToInt32_num: "ToInt32 x = (x + 2147483648) mod 4294967296 - 2147483648"
  by (simp add: ToInt32_def)

lemma hash_step:
  "hash_loop h (c # cs) = hash_loop (ToInt32 (ToInt32 (ToInt32 h * 32) - h + of_char c)) cs"
  by (simp add: Let_def)

lemma sample_buckets:
  "getUserRolloutId (request (beta_visitor ''::1'' [])) mod 100 = 85"
  "getUserRolloutId (request (beta_visitor ''::1'' [(''user-agent'', ''curl'')])) mod 100 = 21"
  by (simp_all add: beta_visitor_def incoming_def get_request_def getUserRolloutId_def js_or_def
      hash_step ToInt32_num del: hash_loop.simps(2))

lemma sample_bags:
  "user (ctx (request (beta_visitor addr hs))) = None"
  by (simp add: beta_visitor_def incoming_def get_request_def empty_bag_def)

theorem FeatureFlag_checks_in_order_witness:
  "get_property features ''dark-mode'' = Undefined
   \<and> getStatus (response (final (FeatureFlag_handle_of features (beta_visitor ''::1'' [])
         Returned ''dark-mode''))) = 404
   \<and> getStatus (response (final (FeatureFlag_handle_of features (beta_visitor ''::1'' [])
         Returned ''experimental''))) = 403
   \<and> getUserRolloutId (request (beta_visitor ''::1'' [])) mod 100 \<ge> 50
   \<and> user (ctx (request (beta_visitor ''::1'' []))) = None
   \<and> getBody (response (final (FeatureFlag_handle_of staged_rollout (beta_visitor ''::1'' [])
         Returned ''vip-beta''))) =
       Some (JObj [(''error'', JStr ''Feature not available''),
                   (''message'', JStr (''Feature '' @ quoted ''vip-beta''
                                        @ '' is not available for your account'')),
                   (''feature'', JObj [(''name'', JStr ''vip-beta''),
                                       (''enabled'', JBool True),
                                       (''inRollout'', JBool False),
                                       (''rolloutPercentage'', JNum 50)])])
   \<and> getStatus (response (final (FeatureFlag_handle_of staged_rollout (beta_visitor ''::1'' [])
         Returned ''vip-beta''))) = 403
   \<and> getStatus (response (final (FeatureFlag_handle_of features (beta_visitor ''::1'' [])
         Returned ''premium-features''))) = 401
   \<and> getUserRolloutId (request (beta_visitor ''::1'' [(''user-agent'', ''curl'')])) mod 100 < 50
   \<and> getStatus (response (final (FeatureFlag_handle_of features
         (beta_visitor ''::1'' [(''user-agent'', ''curl'')]) Returned ''beta-features''))) = 200
   \<and> getStatus (response (final (FeatureFlag_handle (beta_visitor ''::1'' [])
         Returned ''dark-mode''))) = 404
   \<and> getStatus (response (final (route_demo_multiple ''2023-11-14T22:13:20.000Z''
         (multiple_visitor [(''authorization'', ''Bearer demo-token-789''),
                            (''user-agent'', ''Mozilla/5.0 (iPhone)'')])))) = 200
   \<and> getStatus (response (final (route_demo_multiple ''2023-11-14T22:13:20.000Z''
         (multiple_visitor [(''user-agent'', ''Mozilla/5.0 (iPhone)'')])))) = 401"
proof -
  let ?anon = "beta_visitor ''::1'' []"
  let ?curl = "beta_visitor ''::1'' [(''user-agent'', ''curl'')]"
  let ?stamp = "''2023-11-14T22:13:20.000Z''"
  let ?with = "multiple_visitor [(''authorization'', ''Bearer demo-token-789''),
                                 (''user-agent'', ''Mozilla/5.0 (iPhone)'')]"
  let ?without = "multiple_visitor [(''user-agent'', ''Mozilla/5.0 (iPhone)'')]"
  have props:
    "get_property features ''dark-mode'' = Undefined"
    "get_property features ''experimental''
       = Own \<lparr>enabled = False, rollout = 0, requiresAuth = None\<rparr>"
    "get_property staged_rollout ''vip-beta''
       = Own \<lparr>enabled = True, rollout = 50, requiresAuth = Some True\<rparr>"
    "get_property features ''premium-features''
       = Own \<lparr>enabled = True, rollout = 100, requiresAuth = Some True\<rparr>"
    "get_property features ''beta-features''
       = Own \<lparr>enabled = True, rollout = 50, requiresAuth = None\<rparr>"
    by (simp_all add: get_property_def features_def staged_rollout_def
        object_prototype_names_def)
  have names: "''dark-mode'' \<notin> fst ` set features"
    "''dark-mode'' \<notin> set object_prototype_names"
    by (simp_all add: features_def object_prototype_names_def)
  have token: "js_or_value (header (request ?with) ''authorization'')
                 (input (request ?with) ''token'') = Some (JStr ''Bearer demo-token-789'')"
    "replace ''Bearer '' [] ''Bearer demo-token-789'' \<in> set validTokens"
    "getStatus (response ?with) = 200"
    "header (request ?without) ''authorization'' = None"
    "input (request ?without) ''token'' = None"
    by (simp_all add: multiple_visitor_def incoming_def get_request_def js_or_value_def
        validTokens_def new_response_def)
  note unknown = FeatureFlag_checks_in_order
      [of features "''dark-mode''" ?anon Returned Returned ?stamp]
  note disabled = FeatureFlag_checks_in_order
      [of features "''experimental''" ?anon Returned Returned ?stamp]
  note outside = FeatureFlag_checks_in_order
      [of staged_rollout "''vip-beta''" ?anon Returned Returned ?stamp]
  note needs_user = FeatureFlag_checks_in_order
      [of features "''premium-features''" ?anon Returned Returned ?stamp]
  note admitted = FeatureFlag_checks_in_order
      [of features "''beta-features''" ?curl Returned Returned ?stamp]
  note with_token = FeatureFlag_checks_in_order
      [of features "''new-api''" ?with Returned Returned ?stamp]
  note without_token = FeatureFlag_checks_in_order
      [of features "''new-api''" ?without Returned Returned ?stamp]
  have a: "getStatus (response (final (FeatureFlag_handle_of features ?anon
              Returned ''dark-mode''))) = 404"
    using unknown props(1) by (simp add: status_respond)
  have b: "getStatus (response (final (FeatureFlag_handle_of features ?anon
              Returned ''experimental''))) = 403"
    using disabled props(2) by (simp add: status_respond)
  have c: "FeatureFlag_handle_of staged_rollout ?anon Returned ''vip-beta'' =
       respond 403
         (JObj [(''error'', JStr ''Feature not available''),
                (''message'', JStr (''Feature '' @ quoted ''vip-beta''
                                     @ '' is not available for your account'')),
                (''feature'', JObj [(''name'', JStr ''vip-beta''),
                                    (''enabled'', JBool True),
                                    (''inRollout'', JBool False),
                                    (''rolloutPercentage'', JNum 50)])]) ?anon"
    using outside props(3) by (simp add: sample_buckets)
  have d: "getStatus (response (final (FeatureFlag_handle_of features ?anon
              Returned ''premium-features''))) = 401"
    using needs_user props(4) by (simp add: sample_buckets sample_bags status_respond)
  have e: "getStatus (response (final (FeatureFlag_handle_of features ?curl
              Returned ''beta-features''))) = 200"
    using admitted props(5)
    by (simp add: sample_buckets with_header_status)
       (simp add: beta_visitor_def incoming_def new_response_def set_ctx_def)
  have f: "getStatus (response (final (FeatureFlag_handle ?anon Returned ''dark-mode''))) = 404"
    using unknown names by simp
  have g: "getStatus (response (final (route_demo_multiple ?stamp ?with))) = 200"
    using with_token token(1,2,3) by auto
  have h: "getStatus (response (final (route_demo_multiple ?stamp ?without))) = 401"
    using without_token token(4,5) by simp
  show ?thesis
    using props(1) a b c d e f g h
    by (simp add: sample_buckets sample_bags status_respond body_respond)
qed

text \<open>
  C6. Two requests with the same address and the same \<open>User-Agent\<close> header, and
  nothing else in common, have the same bucket, hence the same comparison with the
  rollout of any flag; and the gate treats the second as the bucket of the first says:
  when the first is outside the rollout the second is answered with 403 without calling
  downstream, when the first is inside the second passes the rollout check.
\<close>

theorem rollout_decided_by_ip_and_user_agent:
  "ip (request c1) = ip (request c2)
   \<and> header (request c1) ''user-agent'' = header (request c2) ''user-agent'' \<longrightarrow>
     getUserRolloutId (request c1) =
       \<bar>hash_loop 0 (ip (request c1) @ (case header (request c1) ''user-agent'' of
                                           None \<Rightarrow> [] | Some ua \<Rightarrow> ua))\<bar>
     \<and> (getUserRolloutId (request c1) mod 100 = getUserRolloutId (request c2) mod 100
     \<and> (getUserRolloutId (request c1) mod 100 \<ge> rollout feat)
         = (getUserRolloutId (request c2) mod 100 \<ge> rollout feat)
     \<and> (map_of features f = Some feat \<and> enabled feat
          \<and> getUserRolloutId (request c1) mod 100 \<ge> rollout feat \<longrightarrow>
           FeatureFlag_handle c2 next f = FeatureFlag_handle c2 next' f
           \<and> getStatus (response (final (FeatureFlag_handle c2 next f))) = 403)
     \<and> (map_of features f = Some feat \<and> enabled feat
          \<and> \<not> getUserRolloutId (request c1) mod 100 \<ge> rollout feat
          \<and> \<not> (requiresAuth feat = Some True \<and> user (ctx (request c2)) = None) \<longrightarrow>
           FeatureFlag_handle c2 next f =
             (case next (set_ctx (\<lambda>b. b\<lparr>feature := Some
                      \<lparr>fc_name = f, fc_enabled = True,
                       fc_rolloutId = getUserRolloutId (request c1),
                       fc_rolloutPercentage = rollout feat\<rparr>\<rparr>) c2) of
                Threw e c' \<Rightarrow> Threw e c'
              | Returned c' \<Rightarrow>
                  Returned (with_header ''X-Feature-Rollout'' (toString (rollout feat))
                             (with_header ''X-Feature-Enabled'' ''true''
                               (with_header ''X-Feature-Flag'' f c'))))))"
  (is "?same \<longrightarrow> ?seed \<and> ?decision")
proof
  assume ?same
  then have id: "getUserRolloutId (request c1) = getUserRolloutId (request c2)"
    by (simp add: getUserRolloutId_def)
  have ?seed
    by (cases "header (request c1) ''user-agent''")
       (simp_all add: getUserRolloutId_def js_or_def Let_def)
  moreover have ?decision
    unfolding id
    by (simp add: FeatureFlag_outside_rollout FeatureFlag_admits status_respond)
  ultimately show "?seed \<and> ?decision" ..
qed

theorem rollout_decided_by_ip_and_user_agent_witness:
  "ip (request (beta_visitor ''::1'' [])) = ip (request other_request)
   \<and> header (request (beta_visitor ''::1'' [])) ''user-agent''
       = header (request other_request) ''user-agent''
   \<and> getUserRolloutId (request other_request) mod 100 = 85
   \<and> getStatus (response (final (FeatureFlag_handle (beta_visitor ''::1'' []) Returned ''beta-features''))) = 403
   \<and> getStatus (response (final (FeatureFlag_handle other_request Returned ''beta-features''))) = 403"
proof -
  let ?feat = "\<lparr>enabled = True, rollout = 50, requiresAuth = None\<rparr>"
  have same: "ip (request (beta_visitor ''::1'' [])) = ip (request other_request)
     \<and> header (request (beta_visitor ''::1'' [])) ''user-agent''
         = header (request other_request) ''user-agent''"
    by (simp add: other_request_def beta_visitor_def incoming_def get_request_def set_ctx_def)
  have self: "ip (request (beta_visitor ''::1'' [])) = ip (request (beta_visitor ''::1'' []))
     \<and> header (request (beta_visitor ''::1'' [])) ''user-agent''
         = header (request (beta_visitor ''::1'' [])) ''user-agent''"
    by simp
  note other = rollout_decided_by_ip_and_user_agent
      [of "beta_visitor ''::1'' []" other_request ?feat "''beta-features''" Returned Returned,
       THEN mp, OF same, THEN conjunct2]
  note own = rollout_decided_by_ip_and_user_agent
      [of "beta_visitor ''::1'' []" "beta_visitor ''::1'' []" ?feat "''beta-features''"
          Returned Returned,
       THEN mp, OF self, THEN conjunct2]
  show ?thesis
    using same other own by (simp add: features_lookup sample_buckets)
qed

section \<open>Properties of ResponseTransformer\<close>

lemma map_of_obj_set: "map_of (obj_set k v kvs) = (map_of kvs)(k \<mapsto> v)"
  by (induction kvs) (auto simp: fun_eq_iff)

lemma generateRequestId_prefix: "take 4 (generateRequestId env) = ''req_''"
  by (simp add: generateRequestId_def Let_def)

lemma ResponseTransformer_bad_body:
  "(case header (request c) ''content-type'' of
      None \<Rightarrow> False | Some t \<Rightarrow> includes_str t ''application/json'')
   \<and> isl (body (request c)) \<Longrightarrow>
   ResponseTransformer_handle env c next =
     respond 400
       (JObj [(''error'', JStr ''Invalid JSON''),
              (''message'', JStr ''Request body contains malformed JSON''),
              (''requestId'', JStr (generateRequestId env))])
       (with_header ''X-Request-ID'' (generateRequestId env)
          (set_ctx (\<lambda>b. b\<lparr>requestId := Some (generateRequestId env),
                                 startTime := Some (hrStart env)\<rparr>) c))"
  by (auto simp: ResponseTransformer_handle_def Let_def set_ctx_def with_header_def split: option.splits)

lemma ResponseTransformer_downstream_threw:
  "\<not> ((case header (request c) ''content-type'' of
      None \<Rightarrow> False | Some t \<Rightarrow> includes_str t ''application/json'')
   \<and> isl (body (request c))) \<Longrightarrow>
   next (with_header ''X-Request-ID'' (generateRequestId env)
          (set_ctx (\<lambda>b. b\<lparr>requestId := Some (generateRequestId env),
                                 startTime := Some (hrStart env)\<rparr>) c)) = Threw e c2 \<Longrightarrow>
   ResponseTransformer_handle env c next =
     respond 500
       (JObj [(''error'', JStr ''Internal Server Error''),
              (''message'', JStr ''An error occurred while processing your request''),
              (''meta'', JObj [(''requestId'', JStr (generateRequestId env)),
                               (''processingTime'',
                                  JStr (toFixed2 env (hrEnd env - hrStart env) @ ''ms'')),
                               (''timestamp'', JStr (isoStamp env))])])
       (with_header ''X-Server'' ''AdonisJS-Middleware-Demo''
          (with_header ''X-Processing-Time'' (toFixed2 env (hrEnd env - hrStart env) @ ''ms'') c2))"
  by (auto simp: ResponseTransformer_handle_def Let_def set_ctx_def with_header_def split: option.splits)

lemma ResponseTransformer_downstream_object:
  "\<not> ((case header (request c) ''content-type'' of
      None \<Rightarrow> False | Some t \<Rightarrow> includes_str t ''application/json'')
   \<and> isl (body (request c))) \<Longrightarrow>
   next (with_header ''X-Request-ID'' (generateRequestId env)
          (set_ctx (\<lambda>b. b\<lparr>requestId := Some (generateRequestId env),
                                 startTime := Some (hrStart env)\<rparr>) c)) = Returned c2 \<Longrightarrow>
   getBody (response c2) = Some (JObj kvs) \<Longrightarrow>
   ResponseTransformer_handle env c next =
     Returned
       ((with_header ''X-Server'' ''AdonisJS-Middleware-Demo''
          (with_header ''X-Processing-Time'' (toFixed2 env (hrEnd env - hrStart env) @ ''ms'') c2))
        \<lparr>response := resp_json
           (JObj (obj_set ''meta''
              (JObj [(''requestId'', JStr (generateRequestId env)),
                     (''processingTime'', JStr (toFixed2 env (hrEnd env - hrStart env) @ ''ms'')),
                     (''timestamp'', JStr (isoStamp env)),
                     (''version'', JStr ''1.0.0'')]) kvs))
           (response (with_header ''X-Server'' ''AdonisJS-Middleware-Demo''
              (with_header ''X-Processing-Time''
                 (toFixed2 env (hrEnd env - hrStart env) @ ''ms'') c2)))\<rparr>)"
  by (auto simp: ResponseTransformer_handle_def Let_def set_ctx_def with_header_def resp_header_def split: option.splits)


text \<open>
  C5. The handler generates a request id (\<open>req_\<close> followed by the clock and random
  parts), puts it into the context and into the \<open>X-Request-ID\<close> header, and hands that
  context to downstream, unless the request announces JSON and reading its body throws
  (then it answers 400 with the id and downstream is not reached). When downstream
  throws, the response is status 500 with the generic error and message and a \<open>meta\<close>
  object of request id, processing time and timestamp. When downstream returns with a
  JSON object as body, the status is kept and the body is that object with its \<open>meta\<close>
  field set to request id, processing time, timestamp and version \<open>1.0.0\<close>, every other
  field as it was.
\<close>

theorem ResponseTransformer_envelope:
  "(let rid = generateRequestId env;
        c1 = with_header ''X-Request-ID'' rid
               (set_ctx (\<lambda>b. b\<lparr>requestId := Some rid, startTime := Some (hrStart env)\<rparr>) c);
        ptime = toFixed2 env (hrEnd env - hrStart env) @ ''ms'';
        bad_body = ((case header (request c) ''content-type'' of
                       None \<Rightarrow> False | Some t \<Rightarrow> includes_str t ''application/json'')
                    \<and> isl (body (request c)));
        out = ResponseTransformer_handle env c next
    in take 4 rid = ''req_''
       \<and> requestId (ctx (request c1)) = Some rid
       \<and> getHeaders (response c1) ''X-Request-ID'' = Some rid
       \<and> (bad_body \<longrightarrow>
             out = respond 400
                     (JObj [(''error'', JStr ''Invalid JSON''),
                            (''message'', JStr ''Request body contains malformed JSON''),
                            (''requestId'', JStr rid)]) c1)
       \<and> (\<not> bad_body \<longrightarrow>
             (\<forall>e c2. next c1 = Threw e c2 \<longrightarrow>
                \<not> threw out
                \<and> getStatus (response (final out)) = 500
                \<and> getBody (response (final out)) =
                    Some (JObj [(''error'', JStr ''Internal Server Error''),
                                (''message'',
                                   JStr ''An error occurred while processing your request''),
                                (''meta'', JObj [(''requestId'', JStr rid),
                                                 (''processingTime'', JStr ptime),
                                                 (''timestamp'', JStr (isoStamp env))])]))
           \<and> (\<forall>c2 kvs. next c1 = Returned c2 \<and> getBody (response c2) = Some (JObj kvs) \<longrightarrow>
                \<not> threw out
                \<and> getStatus (response (final out)) = getStatus (response c2)
                \<and> (\<exists>kvs'. getBody (response (final out)) = Some (JObj kvs')
                      \<and> map_of kvs' = (map_of kvs)(''meta'' \<mapsto>
                           JObj [(''requestId'', JStr rid),
                                 (''processingTime'', JStr ptime),
                                 (''timestamp'', JStr (isoStamp env)),
                                 (''version'', JStr ''1.0.0'')])))))"
proof -
  let ?rid = "generateRequestId env"
  let ?c1 = "with_header ''X-Request-ID'' ?rid
               (set_ctx (\<lambda>b. b\<lparr>requestId := Some ?rid, startTime := Some (hrStart env)\<rparr>) c)"
  let ?bad = "(case header (request c) ''content-type'' of
                 None \<Rightarrow> False | Some t \<Rightarrow> includes_str t ''application/json'')
              \<and> isl (body (request c))"
  have attached: "requestId (ctx (request ?c1)) = Some ?rid
                  \<and> getHeaders (response ?c1) ''X-Request-ID'' = Some ?rid"
    by (simp add: with_header_def set_ctx_def resp_header_def)
  have bad: "ResponseTransformer_handle env c next =
               respond 400
                 (JObj [(''error'', JStr ''Invalid JSON''),
                        (''message'', JStr ''Request body contains malformed JSON''),
                        (''requestId'', JStr ?rid)]) ?c1" if "?bad"
    using that ResponseTransformer_bad_body [of c env "next"] by blast
  have thrown: "\<not> threw (ResponseTransformer_handle env c next)
      \<and> getStatus (response (final (ResponseTransformer_handle env c next))) = 500
      \<and> getBody (response (final (ResponseTransformer_handle env c next))) =
           Some (JObj [(''error'', JStr ''Internal Server Error''),
                       (''message'', JStr ''An error occurred while processing your request''),
                       (''meta'', JObj [(''requestId'', JStr ?rid),
                                        (''processingTime'',
                                           JStr (toFixed2 env (hrEnd env - hrStart env) @ ''ms'')),
                                        (''timestamp'', JStr (isoStamp env))])])"
    if "\<not> ?bad" "next ?c1 = Threw e c2" for e c2
  proof -
    have "ResponseTransformer_handle env c next =
       respond 500
         (JObj [(''error'', JStr ''Internal Server Error''),
                (''message'', JStr ''An error occurred while processing your request''),
                (''meta'', JObj [(''requestId'', JStr ?rid),
                                 (''processingTime'',
                                    JStr (toFixed2 env (hrEnd env - hrStart env) @ ''ms'')),
                                 (''timestamp'', JStr (isoStamp env))])])
         (with_header ''X-Server'' ''AdonisJS-Middleware-Demo''
            (with_header ''X-Processing-Time''
               (toFixed2 env (hrEnd env - hrStart env) @ ''ms'') c2))"
      using that ResponseTransformer_downstream_threw [of c "next" env e c2] by blast
    then show ?thesis by (simp add: status_respond threw_respond body_respond)
  qed
  have merged: "\<not> threw (ResponseTransformer_handle env c next)
      \<and> getStatus (response (final (ResponseTransformer_handle env c next)))
          = getStatus (response c2)
      \<and> (\<exists>kvs'. getBody (response (final (ResponseTransformer_handle env c next)))
                    = Some (JObj kvs')
            \<and> map_of kvs' = (map_of kvs)(''meta'' \<mapsto>
                 JObj [(''requestId'', JStr ?rid),
                       (''processingTime'', JStr (toFixed2 env (hrEnd env - hrStart env) @ ''ms'')),
                       (''timestamp'', JStr (isoStamp env)),
                       (''version'', JStr ''1.0.0'')]))"
    if "\<not> ?bad" "next ?c1 = Returned c2" "getBody (response c2) = Some (JObj kvs)" for c2 kvs
    using that ResponseTransformer_downstream_object [of c "next" env c2 kvs]
    by (simp add: resp_json_def with_header_def resp_header_def map_of_obj_set)
  show ?thesis
    unfolding Let_def
    using attached bad thrown merged generateRequestId_prefix [of env] by blast
qed

theorem ResponseTransformer_envelope_witness:
  "getStatus (response (final (ResponseTransformer_handle sample_env malformed_post
       DemoController_error))) = 400
   \<and> getStatus (response (final (ResponseTransformer_handle sample_env
       (incoming (get_request ''/demo/error'' ''::1'' [])) DemoController_error))) = 500
   \<and> getBody (response (final (ResponseTransformer_handle sample_env
       (incoming (get_request ''/demo/error'' ''::1'' [])) DemoController_error))) =
        Some (JObj [(''error'', JStr ''Internal Server Error''),
                    (''message'', JStr ''An error occurred while processing your request''),
                    (''meta'', JObj [(''requestId'', JStr (generateRequestId sample_env)),
                                     (''processingTime'', JStr ''2.50ms''),
                                     (''timestamp'', JStr ''2023-11-14T22:13:20.000Z'')])])
   \<and> getStatus (response (final (ResponseTransformer_handle sample_env
       (incoming (get_request ''/demo/transform'' ''::1'' []))
       (DemoController_public ''2023-11-14T22:13:20.000Z'')))) = 200
   \<and> (case getBody (response (final (ResponseTransformer_handle sample_env
             (incoming (get_request ''/demo/transform'' ''::1'' []))
             (DemoController_public ''2023-11-14T22:13:20.000Z'')))) of
         Some (JObj kvs) \<Rightarrow> map_of kvs ''meta''
       | _ \<Rightarrow> None) =
        Some (JObj [(''requestId'', JStr (generateRequestId sample_env)),
                    (''processingTime'', JStr ''2.50ms''),
                    (''timestamp'', JStr ''2023-11-14T22:13:20.000Z''),
                    (''version'', JStr ''1.0.0'')])"
  using ResponseTransformer_envelope [of sample_env malformed_post DemoController_error]
    ResponseTransformer_envelope [of sample_env "incoming (get_request ''/demo/error'' ''::1'' [])"
       DemoController_error]
    ResponseTransformer_envelope [of sample_env "incoming (get_request ''/demo/transform'' ''::1'' [])"
       "DemoController_public ''2023-11-14T22:13:20.000Z''"]
  by (auto simp: Let_def malformed_post_def incoming_def get_request_def status_respond
      DemoController_error_def DemoController_public_def sample_env_def resp_json_def
      with_header_def resp_header_def set_ctx_def new_response_def)

section \<open>Properties of Cors\<close>

lemma with_header_body: "getBody (response (with_header k v c)) = getBody (response c)"
  by (simp add: with_header_def resp_header_def)

lemma with_header_request: "request (with_header k v c) = request c"
  by (simp add: with_header_def)

lemma joined_lists:
  "join '', '' allowedMethods = ''GET, POST, PUT, DELETE, PATCH, OPTIONS''"
  "join '', '' allowedHeaders = ''Content-Type, Authorization, X-Requested-With, Accept, Origin''"
  by (simp_all add: allowedMethods_def allowedHeaders_def)

lemma setCorsHeaders_effect:
  "request (setCorsHeaders c) = request c
   \<and> getStatus (response (setCorsHeaders c)) = getStatus (response c)
   \<and> getBody (response (setCorsHeaders c)) = getBody (response c)
   \<and> getHeaders (response (setCorsHeaders c)) ''Access-Control-Allow-Methods''
       = Some ''GET, POST, PUT, DELETE, PATCH, OPTIONS''
   \<and> getHeaders (response (setCorsHeaders c)) ''Access-Control-Allow-Headers''
       = Some ''Content-Type, Authorization, X-Requested-With, Accept, Origin''
   \<and> getHeaders (response (setCorsHeaders c)) ''Access-Control-Allow-Credentials'' = Some ''true''
   \<and> getHeaders (response (setCorsHeaders c)) ''Access-Control-Allow-Origin''
       = (if truthy (header (request c) ''origin'')
             \<and> the (header (request c) ''origin'') \<in> set allowedOrigins
          then header (request c) ''origin''
          else if \<not> truthy (header (request c) ''origin'') then Some ''*''
          else getHeaders (response c) ''Access-Control-Allow-Origin'')"
  by (cases "header (request c) ''origin''")
     (simp_all add: setCorsHeaders_def Let_def joined_lists with_header_lookup with_header_status
        with_header_body with_header_request)

text \<open>
  C8, as the specification words it, asks for the allow-origin header on every response
  to a request that is not a preflight. A GET with \<open>Origin: http://evil.example\<close>, an
  origin outside the list, gets none.
\<close>

theorem Cors_without_allow_origin:
  "req_method (request (cross_origin_get ''http://evil.example'')) \<noteq> ''OPTIONS''
   \<and> \<not> threw (Cors_handle (cross_origin_get ''http://evil.example'')
                 (DemoController_public ''2023-11-14T22:13:20.000Z''))
   \<and> getHeaders (response (final (Cors_handle (cross_origin_get ''http://evil.example'')
                 (DemoController_public ''2023-11-14T22:13:20.000Z''))))
         ''Access-Control-Allow-Origin'' = None"
  by (simp add: Cors_handle_def cross_origin_get_def incoming_def get_request_def
      DemoController_public_def setCorsHeaders_def Let_def allowedOrigins_def with_header_lookup
      resp_json_def new_response_def)

text \<open>
  C8, amended. A request with method \<open>OPTIONS\<close> is answered without calling downstream,
  with status 204, an empty body, the max-age header and the allow-methods and
  allow-headers headers. A request with any other method goes downstream; when
  downstream throws, the exception passes through, and when it returns, status and body
  are kept and the allow-methods and allow-headers headers are added. In both cases the
  allow-origin header is set to the request's \<open>Origin\<close> when that is one of the three
  origins of the static list, to \<open>*\<close> when the request has no \<open>Origin\<close>, and is left as
  it was for any other origin.
\<close>

theorem Cors_headers_by_origin:
  "(req_method (request c) = ''OPTIONS'' \<longrightarrow>
      Cors_handle c next = Cors_handle c next'
      \<and> \<not> threw (Cors_handle c next)
      \<and> getStatus (response (final (Cors_handle c next))) = 204
      \<and> getBody (response (final (Cors_handle c next))) = Some (JStr [])
      \<and> getHeaders (response (final (Cors_handle c next))) ''Access-Control-Max-Age''
          = Some ''86400''
      \<and> getHeaders (response (final (Cors_handle c next))) ''Access-Control-Allow-Methods''
          = Some ''GET, POST, PUT, DELETE, PATCH, OPTIONS''
      \<and> getHeaders (response (final (Cors_handle c next))) ''Access-Control-Allow-Headers''
          = Some ''Content-Type, Authorization, X-Requested-With, Accept, Origin''
      \<and> getHeaders (response (final (Cors_handle c next))) ''Access-Control-Allow-Origin''
          = (if truthy (header (request c) ''origin'')
                \<and> the (header (request c) ''origin'') \<in> set allowedOrigins
             then header (request c) ''origin''
             else if \<not> truthy (header (request c) ''origin'') then Some ''*''
             else getHeaders (response c) ''Access-Control-Allow-Origin''))
   \<and> (req_method (request c) \<noteq> ''OPTIONS'' \<longrightarrow>
      (\<forall>e c'. next c = Threw e c' \<longrightarrow> Cors_handle c next = Threw e c')
      \<and> (\<forall>c'. next c = Returned c' \<longrightarrow>
           Cors_handle c next = Returned (setCorsHeaders c')
           \<and> getStatus (response (setCorsHeaders c')) = getStatus (response c')
           \<and> getBody (response (setCorsHeaders c')) = getBody (response c')
           \<and> getHeaders (response (setCorsHeaders c')) ''Access-Control-Allow-Methods''
               = Some ''GET, POST, PUT, DELETE, PATCH, OPTIONS''
           \<and> getHeaders (response (setCorsHeaders c')) ''Access-Control-Allow-Headers''
               = Some ''Content-Type, Authorization, X-Requested-With, Accept, Origin''
           \<and> getHeaders (response (setCorsHeaders c')) ''Access-Control-Allow-Origin''
               = (if truthy (header (request c') ''origin'')
                     \<and> the (header (request c') ''origin'') \<in> set allowedOrigins
                  then header (request c') ''origin''
                  else if \<not> truthy (header (request c') ''origin'') then Some ''*''
                  else getHeaders (response c') ''Access-Control-Allow-Origin'')))"
proof -
  have preflight: "Cors_handle c n =
      Returned ((with_header ''Access-Control-Max-Age'' ''86400'' (setCorsHeaders c))
        \<lparr>response := resp_send [] (resp_status 204
           (response (with_header ''Access-Control-Max-Age'' ''86400'' (setCorsHeaders c))))\<rparr>)"
    if "req_method (request c) = ''OPTIONS''" for n
    using that by (simp add: Cors_handle_def Let_def)
  have other: "Cors_handle c next = (case next c of Threw e c' \<Rightarrow> Threw e c'
                  | Returned c' \<Rightarrow> Returned (setCorsHeaders c'))"
    if "req_method (request c) \<noteq> ''OPTIONS''"
    using that by (simp add: Cors_handle_def)
  show ?thesis
  proof (cases "req_method (request c) = ''OPTIONS''")
    case True
    show ?thesis
      using True setCorsHeaders_effect [of c]
      by (simp add: preflight [OF True] resp_send_def resp_status_def with_header_lookup)
  next
    case False
    show ?thesis
      using False setCorsHeaders_effect
      by (simp add: other [OF False])
  qed
qed


theorem Cors_headers_by_origin_witness:
  "req_method (request (preflight_from ''http://localhost:3000'')) = ''OPTIONS''
   \<and> getStatus (response (final (Cors_handle (preflight_from ''http://localhost:3000'')
         DemoController_error))) = 204
   \<and> getHeaders (response (final (Cors_handle (preflight_from ''http://localhost:3000'')
         DemoController_error))) ''Access-Control-Allow-Origin'' = Some ''http://localhost:3000''
   \<and> req_method (request (cross_origin_get ''https://yourdomain.com'')) \<noteq> ''OPTIONS''
   \<and> getStatus (response (final (Cors_handle (cross_origin_get ''https://yourdomain.com'')
         (DemoController_public ''2023-11-14T22:13:20.000Z'')))) = 200
   \<and> getHeaders (response (final (Cors_handle (cross_origin_get ''https://yourdomain.com'')
         (DemoController_public ''2023-11-14T22:13:20.000Z''))))
         ''Access-Control-Allow-Origin'' = Some ''https://yourdomain.com''
   \<and> getHeaders (response (final (Cors_handle (cross_origin_get ''https://yourdomain.com'')
         (DemoController_public ''2023-11-14T22:13:20.000Z''))))
         ''Access-Control-Allow-Methods'' = Some ''GET, POST, PUT, DELETE, PATCH, OPTIONS''
   \<and> getHeaders (response (final (Cors_handle (incoming (get_request ''/demo/public'' ''::1'' []))
         (DemoController_public ''2023-11-14T22:13:20.000Z''))))
         ''Access-Control-Allow-Origin'' = Some ''*''
   \<and> threw (Cors_handle (cross_origin_get ''https://yourdomain.com'') DemoController_error)"
  using Cors_headers_by_origin [of "preflight_from ''http://localhost:3000''"
      DemoController_error DemoController_error]
    Cors_headers_by_origin [of "cross_origin_get ''https://yourdomain.com''"
      "DemoController_public ''2023-11-14T22:13:20.000Z''"]
    Cors_headers_by_origin [of "incoming (get_request ''/demo/public'' ''::1'' [])"
      "DemoController_public ''2023-11-14T22:13:20.000Z''"]
    Cors_headers_by_origin [of "cross_origin_get ''https://yourdomain.com''" DemoController_error]
  by (simp add: preflight_from_def cross_origin_get_def incoming_def get_request_def
      DemoController_public_def DemoController_error_def allowedOrigins_def resp_json_def
      new_response_def)

end
